theory Spec2Isabelle
  imports Main "HOL-Library.Sublist" "HOL-Library.Multiset"
begin

section \<open>The report tree\<close>

text \<open>
  The module \<^verbatim>\<open>modules/reporting/mongodb.py\<close> stores an analysis report, a
  nested Python structure, in MongoDB. A report is a tree of dictionaries, sequences and
  scalars. Dictionary keys are strings in a well-formed report, but the code defends
  against other keys, so a key is a string or an integer. A dictionary is an association
  list in insertion order, as Python 3.7 iterates it; a real dictionary has no key twice
  (\<open>wf_dict\<close> below). Strings are lists of characters, one per code point, so that
  \<open>length\<close> is Python's \<open>len\<close>. Floats are not modelled; they behave like every other
  scalar that is not a string.
\<close>

datatype key = KStr string | KInt int

datatype val =
    VNone
  | VBool bool
  | VInt int
  | VStr string
  | VOid nat
  | VList "val list"
  | VTuple "val list"
  | VSet "val list"
  | VDict "(key \<times> val) list"

type_synonym dict = "(key \<times> val) list"

text \<open>The exceptions that the code of the module, or a library under it, can raise.\<close>

datatype exn =
    IndexError
  | KeyError key
  | TypeError
  | AttributeError
  | ValueError
  | InvalidDocument string
  | StoreFailure string
  | CuckooDependencyError
  | CuckooReportError string

subsection \<open>Dictionary operations\<close>

definition wf_dict :: "dict \<Rightarrow> bool" where
  "wf_dict d = distinct (map fst d)"

definition dict_has :: "dict \<Rightarrow> key \<Rightarrow> bool" where
  "dict_has d k = (k \<in> set (map fst d))"

text \<open>\<^verbatim>\<open>d[k]\<close>: KeyError when the key is absent.\<close>

definition dict_get :: "dict \<Rightarrow> key \<Rightarrow> exn + val" where
  "dict_get d k = (case map_of d k of None \<Rightarrow> Inl (KeyError k) | Some v \<Rightarrow> Inr v)"

text \<open>\<^verbatim>\<open>d[k] = v\<close>: an existing key keeps its place, a new key goes last.\<close>

fun dict_set :: "dict \<Rightarrow> key \<Rightarrow> val \<Rightarrow> dict" where
  "dict_set [] k v = [(k, v)]"
| "dict_set ((k', v') # d) k v =
     (if k' = k then (k, v) # d else (k', v') # dict_set d k v)"

text \<open>\<^verbatim>\<open>del d[k]\<close> on a dictionary that has the key.\<close>

definition dict_del :: "dict \<Rightarrow> key \<Rightarrow> dict" where
  "dict_del d k = filter (\<lambda>kv. fst kv \<noteq> k) d"

section \<open>The size profiler: \<^verbatim>\<open>debug_dict_size\<close>\<close>

text \<open>
  \<^verbatim>\<open>totals[root] += len(val)\<close>: the entry for \<open>root\<close> exists, since \<open>totals\<close> is
  built from the keys of the profiled dictionary.
\<close>

fun totals_add :: "(key \<times> nat) list \<Rightarrow> key \<Rightarrow> nat \<Rightarrow> (key \<times> nat) list" where
  "totals_add [] root n = []"
| "totals_add ((k, t) # ts) root n =
     (if k = root then (k, t + n) # totals_add ts root n else (k, t) # totals_add ts root n)"

text \<open>
  The inner function \<^verbatim>\<open>walk(root, key, val)\<close>, with the dictionary \<open>totals\<close> that it
  updates passed through. Its parameter \<open>key\<close> is never read and is left out.
\<close>

fun walk :: "key \<Rightarrow> val \<Rightarrow> (key \<times> nat) list \<Rightarrow> (key \<times> nat) list"
  and walk_items :: "key \<Rightarrow> dict \<Rightarrow> (key \<times> nat) list \<Rightarrow> (key \<times> nat) list"
  and walk_elems :: "key \<Rightarrow> val list \<Rightarrow> (key \<times> nat) list \<Rightarrow> (key \<times> nat) list"
where
  "walk root (VDict d) totals = walk_items root d totals"
| "walk root (VList xs) totals = walk_elems root xs totals"
| "walk root (VTuple xs) totals = walk_elems root xs totals"
| "walk root (VSet xs) totals = walk_elems root xs totals"
| "walk root (VStr s) totals = totals_add totals root (length s)"
| "walk root VNone totals = totals"
| "walk root (VBool b) totals = totals"
| "walk root (VInt i) totals = totals"
| "walk root (VOid i) totals = totals"
| "walk_items root [] totals = totals"
| "walk_items root (kv # d) totals = walk_items root d (walk root (snd kv) totals)"
| "walk_elems root [] totals = totals"
| "walk_elems root (el # xs) totals = walk_elems root xs (walk root el totals)"

text \<open>\<^verbatim>\<open>for key, val in dct.items(): walk(key, key, val)\<close>\<close>

fun walk_top :: "dict \<Rightarrow> (key \<times> nat) list \<Rightarrow> (key \<times> nat) list" where
  "walk_top [] totals = totals"
| "walk_top (kv # d) totals = walk_top d (walk (fst kv) (snd kv) totals)"

text \<open>
  \<^verbatim>\<open>sorted(list(totals.items()), key=lambda item: item[1], reverse=True)\<close>: Python's sort
  is stable, also with \<open>reverse=True\<close>, and so is \<open>sort_key\<close>.
\<close>

definition sorted_desc :: "(key \<times> nat) list \<Rightarrow> (key \<times> nat) list" where
  "sorted_desc ts = sort_key (\<lambda>item. - int (snd item)) ts"

text \<open>
  Whether a value can be a dictionary key: \<^verbatim>\<open>dict((k, 0) for k in dct)\<close> raises
  TypeError on an unhashable element.
\<close>

fun hashable :: "val \<Rightarrow> bool" and hashables :: "val list \<Rightarrow> bool" where
  "hashable (VDict d) = False"
| "hashable (VList xs) = False"
| "hashable (VSet xs) = False"
| "hashable (VTuple xs) = hashables xs"
| "hashable VNone = True"
| "hashable (VBool b) = True"
| "hashable (VInt i) = True"
| "hashable (VStr s) = True"
| "hashable (VOid i) = True"
| "hashables [] = True"
| "hashables (x # xs) = (hashable x \<and> hashables xs)"

text \<open>
  The body of \<^verbatim>\<open>debug_dict_size\<close> after the first two lines. On a dictionary it returns
  the sorted totals. On anything else it raises: a value that cannot be iterated raises
  TypeError when \<open>totals\<close> is built, as does a sequence with an unhashable element; every
  other value raises AttributeError at \<^verbatim>\<open>dct.items()\<close>.
\<close>

fun profile :: "val \<Rightarrow> exn + (key \<times> nat) list" where
  "profile (VDict d) = Inr (sorted_desc (walk_top d (map (\<lambda>kv. (fst kv, 0)) d)))"
| "profile (VStr s) = Inl AttributeError"
| "profile (VList xs) = (if hashables xs then Inl AttributeError else Inl TypeError)"
| "profile (VTuple xs) = (if hashables xs then Inl AttributeError else Inl TypeError)"
| "profile (VSet xs) = Inl AttributeError"
| "profile VNone = Inl TypeError"
| "profile (VBool b) = Inl TypeError"
| "profile (VInt i) = Inl TypeError"
| "profile (VOid i) = Inl TypeError"

text \<open>\<^verbatim>\<open>if isinstance(dct, list): dct = dct[0]\<close>, IndexError on the empty list.\<close>

fun debug_dict_size :: "val \<Rightarrow> exn + (key \<times> nat) list" where
  "debug_dict_size (VList []) = Inl IndexError"
| "debug_dict_size (VList (x # xs)) = profile x"
| "debug_dict_size dct = profile dct"

text \<open>\<^verbatim>\<open>debug_dict_size(x)[0]\<close>: the largest key and its total, IndexError when there is none.\<close>

definition largest :: "val \<Rightarrow> exn + (key \<times> nat)" where
  "largest x =
     (case debug_dict_size x of
        Inl e \<Rightarrow> Inl e
      | Inr [] \<Rightarrow> Inl IndexError
      | Inr (item # rest) \<Rightarrow> Inr item)"

text \<open>
  What the specification says the profiler measures: the total length of all string
  scalars reachable beneath a value.
\<close>

fun string_total :: "val \<Rightarrow> nat"
  and string_total_items :: "dict \<Rightarrow> nat"
  and string_total_elems :: "val list \<Rightarrow> nat"
where
  "string_total (VStr s) = length s"
| "string_total (VDict d) = string_total_items d"
| "string_total (VList xs) = string_total_elems xs"
| "string_total (VTuple xs) = string_total_elems xs"
| "string_total (VSet xs) = string_total_elems xs"
| "string_total VNone = 0"
| "string_total (VBool b) = 0"
| "string_total (VInt i) = 0"
| "string_total (VOid i) = 0"
| "string_total_items [] = 0"
| "string_total_items (kv # d) = string_total (snd kv) + string_total_items d"
| "string_total_elems [] = 0"
| "string_total_elems (x # xs) = string_total x + string_total_elems xs"

definition key_totals :: "dict \<Rightarrow> (key \<times> nat) list" where
  "key_totals d = map (\<lambda>kv. (fst kv, string_total (snd kv))) d"

section \<open>Text of keys and log records\<close>

text \<open>\<^verbatim>\<open>str(k)\<close> of a key: the text itself, or the decimal digits of an integer.\<close>

definition digit_char :: "nat \<Rightarrow> char" where
  "digit_char d = ''0123456789'' ! d"

fun str_nat :: "nat \<Rightarrow> string" where
  "str_nat n =
     (if n < 10 then [digit_char n] else str_nat (n div 10) @ [digit_char (n mod 10)])"

declare str_nat.simps [simp del]

definition str_int :: "int \<Rightarrow> string" where
  "str_int i = (if i < 0 then CHR ''-'' # str_nat (nat (- i)) else str_nat (nat i))"

fun str_key :: "key \<Rightarrow> string" where
  "str_key (KStr s) = s"
| "str_key (KInt i) = str_int i"

text \<open>\<^verbatim>\<open>".".join([a, b])\<close>\<close>

definition dot_join :: "string \<Rightarrow> string \<Rightarrow> string" where
  "dot_join a b = a @ ''.'' @ b"

text \<open>
  One constructor per logging call of the module, with the values it formats:
  \<^item> \<open>BadKey\<close>: \<^verbatim>\<open>log.error("BAD KEY: %s", path)\<close>
  \<^item> \<open>MissingInfo\<close>: \<^verbatim>\<open>log.error("Missing 'info' key: %s", keys)\<close>
  \<^item> \<open>InvestigateKey\<close>: \<^verbatim>\<open>log.warning("Investigate your key: %s", key)\<close>
  \<^item> \<open>DeletingTask\<close>, \<open>DeletedTask\<close>: the two \<^verbatim>\<open>log.debug\<close> calls around the eviction
  \<^item> \<open>LargestParent\<close>: \<^verbatim>\<open>log.warning("Largest parent key: %s (%d MB)", ...)\<close>
  \<^item> \<open>ChildDeleted\<close>: \<^verbatim>\<open>log.warn("results['%s']['%s'] deleted due to size: %s", ...)\<close>
  \<^item> \<open>SearchBug\<close>: \<^verbatim>\<open>log.error("Search bug in your modifications - ...")\<close>
  \<^item> \<open>ErrorText\<close>: \<^verbatim>\<open>log.error(str(e))\<close>
  \<^item> \<open>FailedDelete\<close>: \<^verbatim>\<open>log.error("Failed to delete child key: %s", e)\<close>
\<close>

datatype log_entry =
    BadKey string
  | MissingInfo "key list"
  | InvestigateKey key
  | DeletingTask val
  | DeletedTask val
  | LargestParent key int
  | ChildDeleted key key nat
  | SearchBug
  | ErrorText string
  | FailedDelete exn

section \<open>The key coercion: \<^verbatim>\<open>fix_int2str\<close>\<close>

text \<open>
  \<^verbatim>\<open>fix_int2str\<close> starts with \<^verbatim>\<open>dictionary.iteritems()\<close>, a method that dictionaries
  have on Python 2 only. The first parameter says whether the interpreter's dictionaries
  have it; without it the call raises AttributeError before any key is read.

  With it, the loop is read as running over the items the dictionary has when the loop
  starts, while the body renames keys in the dictionary itself:
  \<open>fix_loop it path items dictionary over\<close> handles the remaining \<open>items\<close> of that
  snapshot on the current \<open>dictionary\<close>. The value \<open>v\<close> of an item is the object the
  dictionary held at the start; a nested dictionary is changed in place, which the
  dictionary sees unless an earlier renaming has stored another object under that key
  (the keys in \<open>over\<close>).
\<close>

fun fix_int2str :: "bool \<Rightarrow> dict \<Rightarrow> string \<Rightarrow> exn + (dict \<times> log_entry list)"
  and fix_loop ::
    "bool \<Rightarrow> string \<Rightarrow> dict \<Rightarrow> dict \<Rightarrow> key list \<Rightarrow> exn + (dict \<times> log_entry list)"
  and fix_elems :: "bool \<Rightarrow> string \<Rightarrow> val list \<Rightarrow> exn + (val list \<times> log_entry list)"
where
  "fix_int2str it dictionary current_key_tree =
     (if it then fix_loop it current_key_tree dictionary dictionary []
      else Inl AttributeError)"
| "fix_loop it path [] dictionary over = Inr (dictionary, [])"
| "fix_loop it path ((KInt i, v) # items) dictionary over =
     (case dict_get dictionary (KInt i) of
        Inl e \<Rightarrow> Inl e
      | Inr popped \<Rightarrow>
          (case fix_loop it path items
                  (dict_set (dict_del dictionary (KInt i)) (KStr (str_int i)) popped)
                  (KStr (str_int i) # over) of
             Inl e \<Rightarrow> Inl e
           | Inr (d, lg) \<Rightarrow> Inr (d, BadKey (dot_join path (str_int i)) # lg)))"
| "fix_loop it path ((KStr k, VDict v) # items) dictionary over =
     (case fix_int2str it v (dot_join path k) of
        Inl e \<Rightarrow> Inl e
      | Inr (v', lg) \<Rightarrow>
          (case fix_loop it path items
                  (if KStr k \<in> set over then dictionary
                   else dict_set dictionary (KStr k) (VDict v'))
                  over of
             Inl e \<Rightarrow> Inl e
           | Inr (d, lg') \<Rightarrow> Inr (d, lg @ lg')))"
| "fix_loop it path ((KStr k, VList xs) # items) dictionary over =
     (case fix_elems it (dot_join path k) xs of
        Inl e \<Rightarrow> Inl e
      | Inr (xs', lg) \<Rightarrow>
          (case fix_loop it path items
                  (if KStr k \<in> set over then dictionary
                   else dict_set dictionary (KStr k) (VList xs'))
                  over of
             Inl e \<Rightarrow> Inl e
           | Inr (d, lg') \<Rightarrow> Inr (d, lg @ lg')))"
| "fix_loop it path ((KStr k, v) # items) dictionary over =
     fix_loop it path items dictionary over"
| "fix_elems it path [] = Inr ([], [])"
| "fix_elems it path (VDict d # xs) =
     (case fix_int2str it d path of
        Inl e \<Rightarrow> Inl e
      | Inr (d', lg) \<Rightarrow>
          (case fix_elems it path xs of
             Inl e \<Rightarrow> Inl e
           | Inr (xs', lg') \<Rightarrow> Inr (VDict d' # xs', lg @ lg')))"
| "fix_elems it path (x # xs) =
     (case fix_elems it path xs of
        Inl e \<Rightarrow> Inl e
      | Inr (xs', lg') \<Rightarrow> Inr (x # xs', lg'))"

text \<open>Whether every key of every dictionary in a value is a string.\<close>

fun is_str_key :: "key \<Rightarrow> bool" where
  "is_str_key (KStr s) = True"
| "is_str_key (KInt i) = False"

fun str_keys :: "val \<Rightarrow> bool"
  and str_keys_items :: "dict \<Rightarrow> bool"
  and str_keys_elems :: "val list \<Rightarrow> bool"
where
  "str_keys (VDict d) = str_keys_items d"
| "str_keys (VList xs) = str_keys_elems xs"
| "str_keys (VTuple xs) = str_keys_elems xs"
| "str_keys (VSet xs) = str_keys_elems xs"
| "str_keys VNone = True"
| "str_keys (VBool b) = True"
| "str_keys (VInt i) = True"
| "str_keys (VStr s) = True"
| "str_keys (VOid i) = True"
| "str_keys_items [] = True"
| "str_keys_items (kv # d) = (is_str_key (fst kv) \<and> str_keys (snd kv) \<and> str_keys_items d)"
| "str_keys_elems [] = True"
| "str_keys_elems (x # xs) = (str_keys x \<and> str_keys_elems xs)"

section \<open>Python operations on values\<close>

text \<open>Truth value of a value, as \<^verbatim>\<open>if x:\<close> and \<^verbatim>\<open>x or []\<close> take it.\<close>

fun truthy :: "val \<Rightarrow> bool" where
  "truthy VNone = False"
| "truthy (VBool b) = b"
| "truthy (VInt i) = (i \<noteq> 0)"
| "truthy (VStr s) = (s \<noteq> [])"
| "truthy (VOid i) = True"
| "truthy (VList xs) = (xs \<noteq> [])"
| "truthy (VTuple xs) = (xs \<noteq> [])"
| "truthy (VSet xs) = (xs \<noteq> [])"
| "truthy (VDict d) = (d \<noteq> [])"

text \<open>\<^verbatim>\<open>x.get(k, default)\<close>: only a dictionary has the method.\<close>

fun py_get :: "val \<Rightarrow> key \<Rightarrow> val \<Rightarrow> exn + val" where
  "py_get (VDict d) k dflt = Inr (case map_of d k of None \<Rightarrow> dflt | Some v \<Rightarrow> v)"
| "py_get x k dflt = Inl AttributeError"

text \<open>\<^verbatim>\<open>x[k]\<close> with a string key \<open>k\<close>: KeyError on a dictionary without it, TypeError on
  every value that is not a dictionary.\<close>

fun py_getitem :: "val \<Rightarrow> key \<Rightarrow> exn + val" where
  "py_getitem (VDict d) k = dict_get d k"
| "py_getitem x k = Inl TypeError"

text \<open>\<^verbatim>\<open>x[k] = v\<close> with a string key \<open>k\<close>.\<close>

fun py_setitem :: "val \<Rightarrow> key \<Rightarrow> val \<Rightarrow> exn + val" where
  "py_setitem (VDict d) k v = Inr (VDict (dict_set d k v))"
| "py_setitem x k v = Inl TypeError"

text \<open>
  \<^verbatim>\<open>dict(x)\<close>, a shallow copy of a dictionary. A sequence of pairs, which \<^verbatim>\<open>dict\<close> also
  accepts, is treated like every other value that is not a dictionary.
\<close>

fun py_dict :: "val \<Rightarrow> exn + dict" where
  "py_dict (VDict d) = Inr d"
| "py_dict x = Inl TypeError"

fun key_val :: "key \<Rightarrow> val" where
  "key_val (KStr s) = VStr s"
| "key_val (KInt i) = VInt i"

text \<open>The elements that \<^verbatim>\<open>for el in x\<close> runs over.\<close>

fun py_iter :: "val \<Rightarrow> exn + val list" where
  "py_iter (VList xs) = Inr xs"
| "py_iter (VTuple xs) = Inr xs"
| "py_iter (VSet xs) = Inr xs"
| "py_iter (VStr s) = Inr (map (\<lambda>c. VStr [c]) s)"
| "py_iter (VDict d) = Inr (map (\<lambda>kv. key_val (fst kv)) d)"
| "py_iter x = Inl TypeError"

text \<open>
  \<^verbatim>\<open>int(x)\<close>. How Python reads the text of a string as an integer is the parameter
  \<open>parse\<close>; \<open>None\<close> is ValueError.
\<close>

fun py_int :: "(string \<Rightarrow> int option) \<Rightarrow> val \<Rightarrow> exn + int" where
  "py_int parse (VInt i) = Inr i"
| "py_int parse (VBool b) = Inr (if b then 1 else 0)"
| "py_int parse (VStr s) = (case parse s of None \<Rightarrow> Inl ValueError | Some i \<Rightarrow> Inr i)"
| "py_int parse x = Inl TypeError"

section \<open>The store and the collaborators\<close>

text \<open>
  The state that \<^verbatim>\<open>run\<close> works on: the collections of the MongoDB database (the schema
  marker collection is \<open>None\<close> while it does not exist), the counter that ObjectIds are
  drawn from, whether the client connection \<^verbatim>\<open>self.conn\<close> is open, and the log.
\<close>

record state =
  conn_open :: bool
  cuckoo_schema :: "dict list option"
  analysis :: "dict list"
  calls :: "dict list"
  indexes :: "string list"
  next_oid :: nat
  log :: "log_entry list"

datatype connect_outcome = Connected | PortNotInteger | Unreachable

text \<open>
  What the module takes from outside itself:
  \<^item> \<open>have_mongo\<close>: \<^verbatim>\<open>HAVE_MONGO\<close>, whether pymongo could be imported;
  \<^item> \<open>mongo_client\<close>: how \<^verbatim>\<open>MongoClient(...)\<close> ends for the configured host and port;
  \<^item> \<open>fix_large_docs\<close>: the option of that name, false when absent;
  \<^item> \<open>get_json_document\<close>: the collaborator that copies the results into a report;
  \<^item> \<open>insert_calls\<close>: the collaborator that stores the call records of the report in the
    calls collection (given with the ObjectId counter) and returns the process list
    that refers to them;
  \<^item> \<open>fix_text\<close>: how \<^verbatim>\<open>ensure_valid_utf8\<close> repairs one string;
  \<^item> \<open>parse_int\<close>: how \<^verbatim>\<open>int\<close> reads a string;
  \<^item> \<open>insert_reject\<close>: the exception, if any, with which \<^verbatim>\<open>insert_one\<close> refuses a
    document (the driver's encoder and the size limit);
  \<^item> \<open>update_reject\<close>: the same for \<^verbatim>\<open>update_one\<close> setting one field.
\<close>

record env =
  have_mongo :: bool
  mongo_client :: connect_outcome
  fix_large_docs :: bool
  get_json_document :: "dict \<Rightarrow> exn + dict"
  insert_calls :: "dict \<Rightarrow> dict list \<Rightarrow> nat \<Rightarrow> (exn + val) \<times> dict list \<times> nat"
  fix_text :: "string \<Rightarrow> string"
  parse_int :: "string \<Rightarrow> int option"
  insert_reject :: "dict \<Rightarrow> exn option"
  update_reject :: "key \<Rightarrow> val \<Rightarrow> exn option"

definition MONGOSIZELIMIT :: int where
  "MONGOSIZELIMIT = 16777216"

definition MEGABYTE :: int where
  "MEGABYTE = 1048576"

definition SCHEMA_VERSION :: string where
  "SCHEMA_VERSION = ''1''"

definition add_log :: "log_entry list \<Rightarrow> state \<Rightarrow> state" where
  "add_log es st = st\<lparr>log := log st @ es\<rparr>"

text \<open>\<^verbatim>\<open>self.conn.close()\<close>\<close>

definition close_conn :: "state \<Rightarrow> state" where
  "close_conn st = st\<lparr>conn_open := False\<rparr>"

text \<open>\<^verbatim>\<open>connect\<close>: both failures of the client become a CuckooReportError.\<close>

definition connect :: "env \<Rightarrow> state \<Rightarrow> (exn + unit) \<times> state" where
  "connect ev st =
     (case mongo_client ev of
        Connected \<Rightarrow> (Inr (), st\<lparr>conn_open := True\<rparr>)
      | PortNotInteger \<Rightarrow>
          (Inl (CuckooReportError ''Mongo connection port must be integer''), st)
      | Unreachable \<Rightarrow> (Inl (CuckooReportError ''Cannot connect to MongoDB''), st))"

subsection \<open>Operations of the store\<close>

definition doc_id :: "dict \<Rightarrow> val option" where
  "doc_id d = map_of d (KStr ''_id'')"

text \<open>
  \<^verbatim>\<open>insert_one(doc)\<close> on the analysis collection. The driver first gives a document
  without \<open>_id\<close> a new ObjectId, in the caller's dictionary, and only then encodes and sends
  it: the document comes back with its \<open>_id\<close> also when the insert is refused. The store
  refuses an \<open>_id\<close> that it already holds.
\<close>

definition insert_one :: "env \<Rightarrow> dict \<Rightarrow> state \<Rightarrow> (exn + val) \<times> dict \<times> state" where
  "insert_one ev doc st =
     (let doc' = (if dict_has doc (KStr ''_id'') then doc
                  else dict_set doc (KStr ''_id'') (VOid (next_oid st)));
          st' = (if dict_has doc (KStr ''_id'') then st
                 else st\<lparr>next_oid := Suc (next_oid st)\<rparr>)
      in case insert_reject ev doc' of
           Some e \<Rightarrow> (Inl e, doc', st')
         | None \<Rightarrow>
             (case doc_id doc' of
                None \<Rightarrow> (Inl (KeyError (KStr ''_id'')), doc', st')
              | Some i \<Rightarrow>
                  if Some i \<in> set (map doc_id (analysis st'))
                  then (Inl (StoreFailure ''duplicate key''), doc', st')
                  else (Inr i, doc', st'\<lparr>analysis := analysis st' @ [doc']\<rparr>)))"

text \<open>\<^verbatim>\<open>find({"info.id": t})\<close>: the documents whose \<open>info\<close> section has the integer \<open>t\<close> as \<open>id\<close>.\<close>

definition info_id :: "dict \<Rightarrow> val option" where
  "info_id d =
     (case map_of d (KStr ''info'') of
        Some (VDict i) \<Rightarrow> map_of i (KStr ''id'')
      | _ \<Rightarrow> None)"

definition find_info_id :: "int \<Rightarrow> dict list \<Rightarrow> dict list" where
  "find_info_id t docs = filter (\<lambda>d. info_id d = Some (VInt t)) docs"

text \<open>\<^verbatim>\<open>delete_one({"_id": i})\<close>: the first document with that \<open>_id\<close> goes.\<close>

fun delete_one :: "val \<Rightarrow> dict list \<Rightarrow> dict list" where
  "delete_one i [] = []"
| "delete_one i (d # ds) = (if doc_id d = Some i then ds else d # delete_one i ds)"

text \<open>\<^verbatim>\<open>delete_many({"_id": {"$in": ids}})\<close>\<close>

definition delete_many :: "val list \<Rightarrow> dict list \<Rightarrow> dict list" where
  "delete_many ids docs =
     filter (\<lambda>d. case doc_id d of None \<Rightarrow> True | Some i \<Rightarrow> i \<notin> set ids) docs"

text \<open>
  \<^verbatim>\<open>update_one({"_id": i}, {"$set": {key: v}})\<close>: the first document with that \<open>_id\<close> gets
  the field. A key with a dot, which MongoDB reads as a path, is not told apart.
\<close>

fun update_one :: "val \<Rightarrow> key \<Rightarrow> val \<Rightarrow> dict list \<Rightarrow> dict list" where
  "update_one i k v [] = []"
| "update_one i k v (d # ds) =
     (if doc_id d = Some i then dict_set d k v # ds else d # update_one i k v ds)"

text \<open>\<^verbatim>\<open>create_index\<close>: creating an index that exists changes nothing.\<close>

definition create_index :: "string \<Rightarrow> state \<Rightarrow> state" where
  "create_index name st =
     (if name \<in> set (indexes st) then st else st\<lparr>indexes := indexes st @ [name]\<rparr>)"

text \<open>
  Modelled from the spec: \<^verbatim>\<open>ensure_valid_utf8\<close> of \<^verbatim>\<open>modules/reporting/report_doc.py\<close>,
  which is not among the sources. It rewrites every string scalar of the tree in place
  and leaves the structure, the keys and the other scalars as they are.
\<close>

fun ensure_valid_utf8 :: "(string \<Rightarrow> string) \<Rightarrow> val \<Rightarrow> val"
  and ensure_valid_utf8_items :: "(string \<Rightarrow> string) \<Rightarrow> dict \<Rightarrow> dict"
  and ensure_valid_utf8_elems :: "(string \<Rightarrow> string) \<Rightarrow> val list \<Rightarrow> val list"
where
  "ensure_valid_utf8 f (VStr s) = VStr (f s)"
| "ensure_valid_utf8 f (VDict d) = VDict (ensure_valid_utf8_items f d)"
| "ensure_valid_utf8 f (VList xs) = VList (ensure_valid_utf8_elems f xs)"
| "ensure_valid_utf8 f (VTuple xs) = VTuple (ensure_valid_utf8_elems f xs)"
| "ensure_valid_utf8 f (VSet xs) = VSet (ensure_valid_utf8_elems f xs)"
| "ensure_valid_utf8 f VNone = VNone"
| "ensure_valid_utf8 f (VBool b) = VBool b"
| "ensure_valid_utf8 f (VInt i) = VInt i"
| "ensure_valid_utf8 f (VOid i) = VOid i"
| "ensure_valid_utf8_items f [] = []"
| "ensure_valid_utf8_items f (kv # d) =
     (fst kv, ensure_valid_utf8 f (snd kv)) # ensure_valid_utf8_items f d"
| "ensure_valid_utf8_elems f [] = []"
| "ensure_valid_utf8_elems f (x # xs) = ensure_valid_utf8 f x # ensure_valid_utf8_elems f xs"

section \<open>The incremental fallback: \<^verbatim>\<open>loop_saver\<close>\<close>

text \<open>
  The loop over the remaining keys. Only InvalidDocument is caught, and logged; any other
  exception of the update leaves \<^verbatim>\<open>loop_saver\<close>.
\<close>

fun update_keys :: "env \<Rightarrow> val \<Rightarrow> dict \<Rightarrow> key list \<Rightarrow> state \<Rightarrow> (exn + unit) \<times> state" where
  "update_keys ev oid report [] st = (Inr (), st)"
| "update_keys ev oid report (key # keys) st =
     (case dict_get report key of
        Inl e \<Rightarrow> (Inl e, st)
      | Inr v \<Rightarrow>
          (case update_reject ev key v of
             None \<Rightarrow>
               update_keys ev oid report keys (st\<lparr>analysis := update_one oid key v (analysis st)\<rparr>)
           | Some (InvalidDocument msg) \<Rightarrow>
               update_keys ev oid report keys (add_log [InvestigateKey key] st)
           | Some e \<Rightarrow> (Inl e, st)))"

definition loop_saver :: "env \<Rightarrow> dict \<Rightarrow> state \<Rightarrow> (exn + unit) \<times> state" where
  "loop_saver ev report st =
     (let keys = map fst report in
      if KStr ''info'' \<notin> set keys then (Inr (), add_log [MissingInfo keys] st)
      else
        (case dict_get report (KStr ''info'') of
           Inl e \<Rightarrow> (Inl e, st)
         | Inr info \<Rightarrow>
             (case insert_one ev [(KStr ''info'', info)] st of
                (Inl e, doc, st') \<Rightarrow> (Inl e, st')
              | (Inr oid, doc, st') \<Rightarrow>
                  update_keys ev oid report
                    (remove1 (KStr ''info'') (remove1 (KStr ''_id'') keys)) st')))"

section \<open>The save operation: \<^verbatim>\<open>run\<close>\<close>

subsection \<open>Up to the eviction\<close>

text \<open>
  The schema marker. When the collection exists, the version of its first document is
  compared with \<^verbatim>\<open>SCHEMA_VERSION\<close>; on a difference the code builds a CuckooReportError
  and drops it, since the statement has no \<^verbatim>\<open>raise\<close>. Both branches go on.
\<close>

definition check_schema :: "state \<Rightarrow> (exn + unit) \<times> state" where
  "check_schema st =
     (case cuckoo_schema st of
        Some [] \<Rightarrow> (Inl TypeError, st)
      | Some (marker # rest) \<Rightarrow>
          (case dict_get marker (KStr ''version'') of
             Inl e \<Rightarrow> (Inl e, st)
           | Inr v \<Rightarrow> if v \<noteq> VStr SCHEMA_VERSION then (Inr (), st) else (Inr (), st))
      | None \<Rightarrow>
          (Inr (), st\<lparr>cuckoo_schema :=
                        Some [[(KStr ''version'', VStr SCHEMA_VERSION),
                               (KStr ''_id'', VOid (next_oid st))]],
                      next_oid := Suc (next_oid st)\<rparr>))"

text \<open>\<^verbatim>\<open>results.get("info", {}).get("options", {}).get("main_task_id", "")\<close>\<close>

definition main_task_id :: "dict \<Rightarrow> exn + val" where
  "main_task_id results =
     (case py_get (VDict results) (KStr ''info'') (VDict []) of
        Inl e \<Rightarrow> Inl e
      | Inr i \<Rightarrow>
          (case py_get i (KStr ''options'') (VDict []) of
             Inl e \<Rightarrow> Inl e
           | Inr opts \<Rightarrow> py_get opts (KStr ''main_task_id'') (VStr [])))"

text \<open>\<^verbatim>\<open>report["info"]["id"] = t\<close>\<close>

definition set_info_id :: "dict \<Rightarrow> int \<Rightarrow> exn + dict" where
  "set_info_id report t =
     (case dict_get report (KStr ''info'') of
        Inl e \<Rightarrow> Inl e
      | Inr i \<Rightarrow>
          (case py_setitem i (KStr ''id'') (VInt t) of
             Inl e \<Rightarrow> Inl e
           | Inr i' \<Rightarrow> Inr (dict_set report (KStr ''info'') i')))"

text \<open>The trick for the distributed API: an override of the task identifier.\<close>

definition override_task_id :: "env \<Rightarrow> dict \<Rightarrow> dict \<Rightarrow> exn + dict" where
  "override_task_id ev results report =
     (case main_task_id results of
        Inl e \<Rightarrow> Inl e
      | Inr m \<Rightarrow>
          if truthy m then
            (case py_int (parse_int ev) m of
               Inl e \<Rightarrow> Inl e
             | Inr t \<Rightarrow> set_info_id report t)
          else Inr report)"

text \<open>
  \<^verbatim>\<open>report["behavior"] = dict(report["behavior"])\<close> and
  \<^verbatim>\<open>report["behavior"]["processes"] = new_processes\<close>
\<close>

definition store_processes :: "dict \<Rightarrow> val \<Rightarrow> exn + dict" where
  "store_processes report new_processes =
     (case dict_get report (KStr ''behavior'') of
        Inl e \<Rightarrow> Inl e
      | Inr b \<Rightarrow>
          (case py_dict b of
             Inl e \<Rightarrow> Inl e
           | Inr bd \<Rightarrow>
               Inr (dict_set report (KStr ''behavior'')
                      (VDict (dict_set bd (KStr ''processes'') new_processes)))))"

text \<open>
  The statements of \<^verbatim>\<open>run\<close> from its start to the override of the task identifier: the
  result is the report to be saved. An exception leaves \<^verbatim>\<open>run\<close> with the state
  reached so far.
\<close>

definition prepare :: "env \<Rightarrow> dict \<Rightarrow> state \<Rightarrow> (exn + dict) \<times> state" where
  "prepare ev results st =
     (if \<not> have_mongo ev then (Inl CuckooDependencyError, st)
      else
        (case connect ev st of
           (Inl e, st1) \<Rightarrow> (Inl e, st1)
         | (Inr u, st1) \<Rightarrow>
        (case check_schema st1 of
           (Inl e, st2) \<Rightarrow> (Inl e, st2)
         | (Inr u, st2) \<Rightarrow>
        (case get_json_document ev results of
           Inl e \<Rightarrow> (Inl e, st2)
         | Inr report0 \<Rightarrow>
        (let report1 = (if dict_has report0 (KStr ''network'') then report0
                        else dict_set report0 (KStr ''network'') (VDict []))
         in
        (case insert_calls ev report1 (calls st2) (next_oid st2) of
           (Inl e, cs, n) \<Rightarrow> (Inl e, st2\<lparr>calls := cs, next_oid := n\<rparr>)
         | (Inr new_processes, cs, n) \<Rightarrow>
        (let st3 = st2\<lparr>calls := cs, next_oid := n\<rparr> in
        (case store_processes report1 new_processes of
           Inl e \<Rightarrow> (Inl e, st3)
         | Inr report2 \<Rightarrow>
        (let st4 = create_index ''ALL_SHA256'' (create_index ''info.id'' st3) in
        (case override_task_id ev results report2 of
           Inl e \<Rightarrow> (Inl e, st4)
         | Inr report3 \<Rightarrow> (Inr report3, st4)))))))))))"

subsection \<open>The eviction of the previous documents\<close>

text \<open>\<^verbatim>\<open>report["info"]["id"]\<close> and \<^verbatim>\<open>int(report["info"]["id"])\<close>\<close>

definition report_id :: "dict \<Rightarrow> exn + val" where
  "report_id report =
     (case dict_get report (KStr ''info'') of
        Inl e \<Rightarrow> Inl e
      | Inr i \<Rightarrow> py_getitem i (KStr ''id''))"

definition task_id :: "env \<Rightarrow> dict \<Rightarrow> exn + int" where
  "task_id ev report =
     (case report_id report of
        Inl e \<Rightarrow> Inl e
      | Inr t \<Rightarrow> py_int (parse_int ev) t)"

text \<open>
  \<^verbatim>\<open>for process in ...: self.db.calls.delete_many({"_id": {"$in": process["calls"]}})\<close>;
  the store refuses an operand of \<open>$in\<close> that is not an array.
\<close>

fun delete_calls :: "val list \<Rightarrow> state \<Rightarrow> (exn + unit) \<times> state" where
  "delete_calls [] st = (Inr (), st)"
| "delete_calls (process # rest) st =
     (case py_getitem process (KStr ''calls'') of
        Inl e \<Rightarrow> (Inl e, st)
      | Inr (VList ids) \<Rightarrow> delete_calls rest (st\<lparr>calls := delete_many ids (calls st)\<rparr>)
      | Inr x \<Rightarrow> (Inl (StoreFailure ''$in needs an array''), st))"

text \<open>The body of \<^verbatim>\<open>for analysis in analyses\<close>.\<close>

definition evict_one :: "dict \<Rightarrow> state \<Rightarrow> (exn + unit) \<times> state" where
  "evict_one doc st =
     (case dict_get doc (KStr ''behavior'') of
        Inl e \<Rightarrow> (Inl e, st)
      | Inr b \<Rightarrow>
          (case py_get b (KStr ''processes'') (VList []) of
             Inl e \<Rightarrow> (Inl e, st)
           | Inr ps \<Rightarrow>
               (case py_iter (if truthy ps then ps else VList []) of
                  Inl e \<Rightarrow> (Inl e, st)
                | Inr procs \<Rightarrow>
                    (case delete_calls procs st of
                       (Inl e, st') \<Rightarrow> (Inl e, st')
                     | (Inr u, st') \<Rightarrow>
                         (case dict_get doc (KStr ''_id'') of
                            Inl e \<Rightarrow> (Inl e, st')
                          | Inr i \<Rightarrow>
                              (Inr (), st'\<lparr>analysis := delete_one i (analysis st')\<rparr>))))))"

fun evict_all :: "dict list \<Rightarrow> state \<Rightarrow> (exn + unit) \<times> state" where
  "evict_all [] st = (Inr (), st)"
| "evict_all (doc # docs) st =
     (case evict_one doc st of
        (Inl e, st') \<Rightarrow> (Inl e, st')
      | (Inr u, st') \<Rightarrow> evict_all docs st')"

text \<open>
  The query and the loop over its result. The cursor that \<^verbatim>\<open>find\<close> returns is always
  true, so the branch is always taken; the loop runs over the documents that matched
  when the query was made.
\<close>

definition evict :: "env \<Rightarrow> dict \<Rightarrow> state \<Rightarrow> (exn + unit) \<times> state" where
  "evict ev report st =
     (case report_id report of
        Inl e \<Rightarrow> (Inl e, st)
      | Inr raw \<Rightarrow>
          (case task_id ev report of
             Inl e \<Rightarrow> (Inl e, st)
           | Inr t \<Rightarrow>
               (case evict_all (find_info_id t (analysis st)) (add_log [DeletingTask raw] st) of
                  (Inl e, st') \<Rightarrow> (Inl e, st')
                | (Inr u, st') \<Rightarrow> (Inr (), add_log [DeletedTask raw] st'))))"

subsection \<open>The oversize remediation\<close>

text \<open>
  \<^verbatim>\<open>del x[child_key]\<close>, where \<open>x\<close> is the value that was profiled. A dictionary loses
  the key. A list, of which \<^verbatim>\<open>debug_dict_size\<close> profiles the first element, takes an
  integer key as an index, counted from the end when negative, and raises TypeError on
  any other key.
\<close>

definition drop_at :: "nat \<Rightarrow> 'a list \<Rightarrow> 'a list" where
  "drop_at n xs = take n xs @ drop (Suc n) xs"

fun del_child :: "val \<Rightarrow> key \<Rightarrow> exn + val" where
  "del_child (VDict d) k = (if dict_has d k then Inr (VDict (dict_del d k)) else Inl (KeyError k))"
| "del_child (VList xs) (KInt i) =
     (if 0 \<le> i \<and> i < int (length xs) then Inr (VList (drop_at (nat i) xs))
      else if i < 0 \<and> - i \<le> int (length xs)
        then Inr (VList (drop_at (nat (int (length xs) + i)) xs))
      else Inl IndexError)"
| "del_child x k = Inl TypeError"

text \<open>
  The result of the deletion step of one pass: the exception that ended it, if any, the
  value as the step leaves it (what was deleted before an exception stays deleted) and
  the log records written.
\<close>

type_synonym 'a pruned = "exn option \<times> 'a \<times> log_entry list"

text \<open>\<^verbatim>\<open>for j, parent_dict in enumerate(report[parent_key])\<close>\<close>

fun prune_elems :: "int \<Rightarrow> key \<Rightarrow> val list \<Rightarrow> val list pruned" where
  "prune_elems size_filter parent_key [] = (None, [], [])"
| "prune_elems size_filter parent_key (parent_dict # rest) =
     (case largest parent_dict of
        Inl e \<Rightarrow> (Some e, parent_dict # rest, [])
      | Inr (child_key, csize) \<Rightarrow>
          if int csize > size_filter then
            (case del_child parent_dict child_key of
               Inl e \<Rightarrow> (Some e, parent_dict # rest, [ChildDeleted parent_key child_key csize])
             | Inr parent_dict' \<Rightarrow>
                 (case prune_elems size_filter parent_key rest of
                    (r, rest', lg) \<Rightarrow>
                      (r, parent_dict' # rest', ChildDeleted parent_key child_key csize # lg)))
          else
            (case prune_elems size_filter parent_key rest of
               (r, rest', lg) \<Rightarrow> (r, parent_dict # rest', lg)))"

text \<open>The deletion step: the \<^verbatim>\<open>if isinstance(report[parent_key], list)\<close> statement.\<close>

definition prune :: "int \<Rightarrow> key \<Rightarrow> dict \<Rightarrow> dict pruned" where
  "prune size_filter parent_key report =
     (case dict_get report parent_key of
        Inl e \<Rightarrow> (Some e, report, [])
      | Inr (VList xs) \<Rightarrow>
          (case prune_elems size_filter parent_key xs of
             (r, xs', lg) \<Rightarrow> (r, dict_set report parent_key (VList xs'), lg))
      | Inr x \<Rightarrow>
          (case largest x of
             Inl e \<Rightarrow> (Some e, report, [])
           | Inr (child_key, csize) \<Rightarrow>
               if int csize > size_filter then
                 (case del_child x child_key of
                    Inl e \<Rightarrow> (Some e, report, [ChildDeleted parent_key child_key csize])
                  | Inr x' \<Rightarrow>
                      (None, dict_set report parent_key x',
                       [ChildDeleted parent_key child_key csize]))
               else (None, report, [])))"

text \<open>
  How \<^verbatim>\<open>run\<close> ends: by an exception, or by one of its returns. The returns are told
  apart by the place they are taken from:
  \<^item> \<open>Inserted\<close>: the first insert was accepted;
  \<^item> \<open>Fallback\<close>: after \<^verbatim>\<open>loop_saver\<close>, the \<^verbatim>\<open>return\<close> in the handler;
  \<^item> \<open>Diagnosed\<close>: the largest key was logged, \<^verbatim>\<open>fix_large_docs\<close> being off;
  \<^item> \<open>Remediated\<close>: an insert of the remediation loop was accepted;
  \<^item> \<open>KeyBug\<close>: the \<^verbatim>\<open>return\<close> of the loop on a key that is not a string;
  \<^item> \<open>GaveUp\<close>: the loop was left through its \<^verbatim>\<open>except Exception\<close>.
\<close>

datatype return_path = Inserted | Fallback | Diagnosed | Remediated | KeyBug | GaveUp

datatype exit = Return return_path | Raise exn

text \<open>
  One pass of \<^verbatim>\<open>while error_saved\<close>: the loop either ends \<^verbatim>\<open>run\<close> (\<open>Done\<close>) or
  goes round again with a new parent key and threshold (\<open>Again\<close>). Every exception inside
  the outer \<^verbatim>\<open>try\<close>, also one of the insert that is not an InvalidDocument and one of the
  profiler in the inner handler, ends in the outer \<^verbatim>\<open>except Exception\<close>: it is logged,
  the loop ends, and the connection is closed after it.
\<close>

datatype pass = Done return_path dict state | Again key int dict state

definition give_up :: "exn \<Rightarrow> dict \<Rightarrow> state \<Rightarrow> pass" where
  "give_up e report st = Done GaveUp report (close_conn (add_log [FailedDelete e] st))"

definition remediation_pass :: "env \<Rightarrow> key \<Rightarrow> int \<Rightarrow> dict \<Rightarrow> state \<Rightarrow> pass" where
  "remediation_pass ev parent_key size_filter report st =
     (case prune size_filter parent_key report of
        (Some e, report1, lg) \<Rightarrow> give_up e report1 (add_log lg st)
      | (None, report1, lg) \<Rightarrow>
          (case insert_one ev report1 (add_log lg st) of
             (Inr oid, report2, st2) \<Rightarrow> Done Remediated report2 (close_conn st2)
           | (Inl (InvalidDocument msg), report2, st2) \<Rightarrow>
               if prefix ''documents must have only string keys'' msg
               then Done KeyBug report2 (add_log [SearchBug, ErrorText msg] st2)
               else
                 (case largest (VDict report2) of
                    Inl e \<Rightarrow> give_up e report2 st2
                  | Inr (parent_key', psize) \<Rightarrow>
                      Again parent_key' (size_filter - MEGABYTE) report2
                        (add_log [ErrorText msg,
                                  LargestParent parent_key' (int psize div MEGABYTE)] st2))
           | (Inl e, report2, st2) \<Rightarrow> give_up e report2 st2))"

text \<open>
  The loop. Nothing in the code bounds the number of passes, so the model counts them
  down from \<open>fuel\<close>: \<open>None\<close> says that the loop has not ended within \<open>fuel\<close> passes.
\<close>

fun remediate ::
  "nat \<Rightarrow> env \<Rightarrow> key \<Rightarrow> int \<Rightarrow> dict \<Rightarrow> state \<Rightarrow> (exit \<times> dict \<times> state) option"
where
  "remediate 0 ev parent_key size_filter report st = None"
| "remediate (Suc fuel) ev parent_key size_filter report st =
     (case remediation_pass ev parent_key size_filter report st of
        Done path report' st' \<Rightarrow> Some (Return path, report', st')
      | Again parent_key' size_filter' report' st' \<Rightarrow>
          remediate fuel ev parent_key' size_filter' report' st')"

subsection \<open>The insert and its handler\<close>

definition must_not_contain_dot :: string where
  "must_not_contain_dot = ''must not contain '' @ [CHR 0x27, CHR ''.'', CHR 0x27]"

text \<open>
  The handler \<^verbatim>\<open>except InvalidDocument as e\<close> of the first insert, \<open>msg\<close> being
  \<^verbatim>\<open>str(e)\<close>. The return after \<^verbatim>\<open>loop_saver\<close> does not pass \<^verbatim>\<open>self.conn.close()\<close>,
  and an exception of \<^verbatim>\<open>loop_saver\<close> or of the profiler leaves \<^verbatim>\<open>run\<close>.
\<close>

definition on_invalid_document ::
  "nat \<Rightarrow> env \<Rightarrow> string \<Rightarrow> dict \<Rightarrow> state \<Rightarrow> (exit \<times> dict \<times> state) option"
where
  "on_invalid_document fuel ev msg report st =
     (if prefix ''cannot encode object'' msg \<or> suffix must_not_contain_dot msg then
        (case loop_saver ev report st of
           (Inl e, st') \<Rightarrow> Some (Raise e, report, st')
         | (Inr u, st') \<Rightarrow> Some (Return Fallback, report, st'))
      else
        (case largest (VDict report) of
           Inl e \<Rightarrow> Some (Raise e, report, st)
         | Inr (parent_key, psize) \<Rightarrow>
             if \<not> fix_large_docs ev then
               Some (Return Diagnosed, report,
                     close_conn (add_log [LargestParent parent_key (int psize div MEGABYTE)] st))
             else remediate fuel ev parent_key MONGOSIZELIMIT report st))"

text \<open>
  The statements of \<^verbatim>\<open>run\<close> after the eviction: the text repair, the insert and what
  follows it. The result has the report as \<^verbatim>\<open>run\<close> leaves it.
\<close>

definition save_report ::
  "nat \<Rightarrow> env \<Rightarrow> dict \<Rightarrow> state \<Rightarrow> (exit \<times> dict \<times> state) option"
where
  "save_report fuel ev report st =
     (case insert_one ev (ensure_valid_utf8_items (fix_text ev) report) st of
        (Inr oid, report', st') \<Rightarrow> Some (Return Inserted, report', close_conn st')
      | (Inl (InvalidDocument msg), report', st') \<Rightarrow> on_invalid_document fuel ev msg report' st'
      | (Inl e, report', st') \<Rightarrow> Some (Raise e, report', st'))"

definition run :: "nat \<Rightarrow> env \<Rightarrow> dict \<Rightarrow> state \<Rightarrow> (exit \<times> state) option" where
  "run fuel ev results st =
     (case prepare ev results st of
        (Inl e, st1) \<Rightarrow> Some (Raise e, st1)
      | (Inr report, st1) \<Rightarrow>
          (case evict ev report st1 of
             (Inl e, st2) \<Rightarrow> Some (Raise e, st2)
           | (Inr u, st2) \<Rightarrow>
               (case save_report fuel ev report st2 of
                  None \<Rightarrow> None
                | Some (x, report', st3) \<Rightarrow> Some (x, st3))))"

section \<open>Example inputs\<close>

text \<open>
  An environment in which everything works: the collaborators copy the results and find
  no calls, and the store accepts every document and every update.
\<close>

definition base_env :: env where
  "base_env = \<lparr>have_mongo = True, mongo_client = Connected, fix_large_docs = False,
     get_json_document = Inr,
     insert_calls = (\<lambda>report cs n. (Inr (VList []), cs, n)),
     fix_text = (\<lambda>s. s), parse_int = (\<lambda>s. None),
     insert_reject = (\<lambda>d. None), update_reject = (\<lambda>k v. None)\<rparr>"

definition empty_store :: state where
  "empty_store = \<lparr>conn_open = False, cuckoo_schema = None, analysis = [], calls = [],
     indexes = [], next_oid = 0, log = []\<rparr>"

text \<open>A small result tree for task 42.\<close>

definition small_results :: dict where
  "small_results = [(KStr ''info'', VDict [(KStr ''id'', VInt 42)]),
                    (KStr ''behavior'', VDict [])]"

text \<open>A store that was initialised with another schema version.\<close>

definition stale_store :: state where
  "stale_store = empty_store\<lparr>cuckoo_schema := Some [[(KStr ''version'', VStr ''2'')]]\<rparr>"

text \<open>
  A driver that cannot encode the behavior section: it refuses every document that has
  one, and accepts the others.
\<close>

definition unencodable_env :: env where
  "unencodable_env = base_env\<lparr>insert_reject :=
     (\<lambda>d. if dict_has d (KStr ''behavior'')
          then Some (InvalidDocument ''cannot encode object: <object>'') else None)\<rparr>"

text \<open>
  A driver that refuses a document with a key that is not a string, as pymongo does, and
  the same with the deletion of large keys switched on.
\<close>

definition string_keys_only :: "dict \<Rightarrow> exn option" where
  "string_keys_only d =
     (if str_keys_items d then None
      else Some (InvalidDocument ''documents must have only string keys, key was 1''))"


definition strict_fixing_env :: env where
  "strict_fixing_env = base_env\<lparr>insert_reject := string_keys_only, fix_large_docs := True\<rparr>"

text \<open>A result tree for task 42 with an integer key in one section.\<close>

definition int_key_results :: dict where
  "int_key_results = [(KStr ''info'', VDict [(KStr ''id'', VInt 42)]),
                      (KStr ''behavior'', VDict []),
                      (KStr ''signatures'', VDict [(KInt 1, VStr ''x'')])]"

section \<open>What the fallback is expected to write\<close>

text \<open>
  The sections that \<^verbatim>\<open>loop_saver\<close> sends as updates: the keys of the report but
  \<open>info\<close> and \<open>_id\<close>, in the order of the report.
\<close>

definition sections :: "dict \<Rightarrow> key list" where
  "sections report = remove1 (KStr ''info'') (remove1 (KStr ''_id'') (map fst report))"

text \<open>
  An update is refused when the store rejects it as an invalid document, and fails when
  it ends in any other exception.
\<close>

definition update_refused :: "env \<Rightarrow> dict \<Rightarrow> key \<Rightarrow> bool" where
  "update_refused ev report k =
     (case map_of report k of
        None \<Rightarrow> False
      | Some v \<Rightarrow>
          (case update_reject ev k v of
             Some (InvalidDocument msg) \<Rightarrow> True
           | _ \<Rightarrow> False))"

definition update_fails :: "env \<Rightarrow> dict \<Rightarrow> key \<Rightarrow> bool" where
  "update_fails ev report k =
     (case map_of report k of
        None \<Rightarrow> True
      | Some v \<Rightarrow>
          (case update_reject ev k v of
             None \<Rightarrow> False
           | Some (InvalidDocument msg) \<Rightarrow> False
           | Some e \<Rightarrow> True))"

text \<open>The document that results from setting the sections \<open>ks\<close> of the report in \<open>d\<close>.\<close>

fun set_sections :: "dict \<Rightarrow> key list \<Rightarrow> dict \<Rightarrow> dict" where
  "set_sections report [] d = d"
| "set_sections report (k # ks) d =
     set_sections report ks (case map_of report k of None \<Rightarrow> d | Some v \<Rightarrow> dict_set d k v)"

text \<open>A store that takes no update of the behavior section.\<close>

definition no_behavior_env :: env where
  "no_behavior_env = base_env\<lparr>update_reject :=
     (\<lambda>k v. if k = KStr ''behavior''
            then Some (InvalidDocument ''cannot encode object: <object>'') else None)\<rparr>"

text \<open>A store that refuses every document as too large.\<close>

definition too_large_env :: env where
  "too_large_env = base_env\<lparr>insert_reject :=
     (\<lambda>d. Some (InvalidDocument ''BSON document too large''))\<rparr>"

text \<open>
  A store that holds a document of task 42, whose process refers to the call record 3,
  a document of task 7, and the call records 3 and 4.
\<close>

definition used_store :: state where
  "used_store = \<lparr>conn_open = False,
     cuckoo_schema = Some [[(KStr ''version'', VStr ''1''), (KStr ''_id'', VOid 0)]],
     analysis =
       [[(KStr ''info'', VDict [(KStr ''id'', VInt 42)]),
         (KStr ''behavior'',
          VDict [(KStr ''processes'', VList [VDict [(KStr ''calls'', VList [VOid 3])]])]),
         (KStr ''old'', VStr ''first save''),
         (KStr ''_id'', VOid 5)],
        [(KStr ''info'', VDict [(KStr ''id'', VInt 7)]),
         (KStr ''behavior'',
          VDict [(KStr ''processes'', VList [VDict [(KStr ''calls'', VList [VOid 4])]])]),
         (KStr ''_id'', VOid 6)]],
     calls = [[(KStr ''_id'', VOid 3)], [(KStr ''_id'', VOid 4)]],
     indexes = [''info.id'', ''ALL_SHA256''], next_oid = 10, log = []\<rparr>"

text \<open>
  The same store with a collaborator that stores one call record for the report and
  returns the one process that refers to it.
\<close>

definition storing_env :: env where
  "storing_env = too_large_env\<lparr>insert_calls :=
     (\<lambda>report cs n. (Inr (VList [VDict [(KStr ''calls'', VList [VOid n])]]),
                     cs @ [[(KStr ''_id'', VOid n)]], Suc n))\<rparr>"

section \<open>The call records that a stored document refers to\<close>



text \<open>Whether a call record has one of the identifiers \<open>ids\<close>.\<close>

definition call_in :: "val list \<Rightarrow> dict \<Rightarrow> bool" where
  "call_in ids c = (case doc_id c of None \<Rightarrow> False | Some i \<Rightarrow> i \<in> set ids)"





section \<open>Properties of the size profiler\<close>

lemma totals_add_absent: "root \<notin> fst ` set ts \<Longrightarrow> totals_add ts root n = ts"
  by (induction ts root n rule: totals_add.induct) auto

lemma totals_add_zero: "totals_add ts root 0 = ts"
  by (induction ts root "0::nat" rule: totals_add.induct) auto

lemma totals_add_add: "totals_add (totals_add ts root a) root b = totals_add ts root (a + b)"
  by (induction ts root a rule: totals_add.induct) auto

lemma totals_add_append:
  "totals_add (xs @ ys) root n = totals_add xs root n @ totals_add ys root n"
  by (induction xs root n rule: totals_add.induct) auto

text \<open>A walk adds to the entry of its root the string total of the value it walks.\<close>

lemma walk_add:
  "walk root v ts = totals_add ts root (string_total v)"
  "walk_items root d ts = totals_add ts root (string_total_items d)"
  "walk_elems root xs ts = totals_add ts root (string_total_elems xs)"
  by (induction root v ts and root d ts and root xs ts rule: walk_walk_items_walk_elems.induct)
    (simp_all add: totals_add_zero totals_add_add)

lemma walk_top_gen:
  "distinct (map fst d) \<Longrightarrow> fst ` set pre \<inter> fst ` set d = {} \<Longrightarrow>
   walk_top d (pre @ map (\<lambda>kv. (fst kv, 0)) d) = pre @ key_totals d"
proof (induction d arbitrary: pre)
  case Nil
  then show ?case by (simp add: key_totals_def)
next
  case (Cons kv d)
  have a: "fst kv \<notin> fst ` set pre" using Cons.prems by auto
  have b: "fst kv \<notin> fst ` set (map (\<lambda>kv. (fst kv, 0::nat)) d)" using Cons.prems by force
  have "walk (fst kv) (snd kv) (pre @ map (\<lambda>kv. (fst kv, 0)) (kv # d))
        = (pre @ [(fst kv, string_total (snd kv))]) @ map (\<lambda>kv. (fst kv, 0)) d"
    using a b by (simp add: walk_add totals_add_append totals_add_absent)
  moreover have "walk_top d ((pre @ [(fst kv, string_total (snd kv))]) @ map (\<lambda>kv. (fst kv, 0)) d)
        = (pre @ [(fst kv, string_total (snd kv))]) @ key_totals d"
    using Cons.prems by (intro Cons.IH) auto
  ultimately show ?case by (simp add: key_totals_def)
qed

lemma profile_dict: "wf_dict d \<Longrightarrow> profile (VDict d) = Inr (sorted_desc (key_totals d))"
  using walk_top_gen [of d "[]"] by (simp add: wf_dict_def)

lemma sorted_desc_sorted: "sorted_wrt (\<ge>) (map snd (sorted_desc ts))"
proof -
  have "sorted (map (\<lambda>item. - int (snd item)) (sorted_desc ts))"
    unfolding sorted_desc_def by (rule sorted_sort_key)
  then show ?thesis
    by (simp add: sorted_wrt_map)
qed

lemma sorted_desc_mset: "mset (sorted_desc ts) = mset ts"
  by (simp add: sorted_desc_def)

lemma sorted_desc_stable:
  "filter (\<lambda>item. snd item = n) (sorted_desc ts) = filter (\<lambda>item. snd item = n) ts"
  using sort_key_stable [of "\<lambda>item. - int (snd item)" "- int n" ts]
  by (simp add: sorted_desc_def)

lemma sum_key_totals: "sum_list (map snd (key_totals d)) = string_total_items d"
  by (induction d) (simp_all add: key_totals_def)

lemma sum_sorted_desc: "sum_list (map snd (sorted_desc ts)) = sum_list (map snd ts)"
proof -
  have "mset (map snd (sorted_desc ts)) = mset (map snd ts)"
    by (simp add: sorted_desc_mset)
  then show ?thesis by (metis sum_mset_sum_list)
qed

text \<open>
  Claim C5. For a dictionary \<open>d\<close> (no key twice), \<^verbatim>\<open>debug_dict_size\<close> returns the pairs of
  each top-level key with the total length of the string scalars beneath it
  (\<open>key_totals\<close>), in descending order of the total, keys of equal total in the order of
  the dictionary; the totals add up to the length of all string scalars of \<open>d\<close>; and on a
  list that starts with \<open>d\<close> it returns what it returns on \<open>d\<close>. The function is a pure
  function of its argument: the model has no state that it could change.
\<close>

theorem debug_dict_size_profile:
  assumes "wf_dict d"
  shows "debug_dict_size (VDict d) = Inr (sorted_desc (key_totals d))
       \<and> mset (sorted_desc (key_totals d)) = mset (key_totals d)
       \<and> sorted_wrt (\<ge>) (map snd (sorted_desc (key_totals d)))
       \<and> filter (\<lambda>item. snd item = n) (sorted_desc (key_totals d))
           = filter (\<lambda>item. snd item = n) (key_totals d)
       \<and> sum_list (map snd (sorted_desc (key_totals d))) = string_total (VDict d)
       \<and> debug_dict_size (VList (VDict d # ds)) = debug_dict_size (VDict d)"
proof -
  have "debug_dict_size (VDict d) = profile (VDict d)"
    and "debug_dict_size (VList (VDict d # ds)) = profile (VDict d)"
    by simp_all
  then show ?thesis
    by (simp del: profile.simps
        add: profile_dict [OF assms] sorted_desc_sorted sorted_desc_mset sorted_desc_stable
          sum_sorted_desc sum_key_totals)
qed

theorem debug_dict_size_profile_witness:
  "wf_dict [(KStr ''a'', VStr ''xy''),
            (KStr ''b'', VList [VStr ''abc'', VDict [(KInt 1, VSet [VStr ''q''])]]),
            (KStr ''c'', VInt 3),
            (KStr ''d'', VTuple [VStr ''zz''])]
   \<and> debug_dict_size (VDict [(KStr ''a'', VStr ''xy''),
            (KStr ''b'', VList [VStr ''abc'', VDict [(KInt 1, VSet [VStr ''q''])]]),
            (KStr ''c'', VInt 3),
            (KStr ''d'', VTuple [VStr ''zz''])])
     = Inr [(KStr ''b'', 4), (KStr ''a'', 2), (KStr ''d'', 2), (KStr ''c'', 0)]"
proof -
  let ?d = "[(KStr ''a'', VStr ''xy''),
            (KStr ''b'', VList [VStr ''abc'', VDict [(KInt 1, VSet [VStr ''q''])]]),
            (KStr ''c'', VInt 3),
            (KStr ''d'', VTuple [VStr ''zz''])]"
  have wf: "wf_dict ?d" by (simp add: wf_dict_def)
  have "sorted_desc (key_totals ?d)
        = [(KStr ''b'', 4), (KStr ''a'', 2), (KStr ''d'', 2), (KStr ''c'', 0)]"
    by (simp add: sorted_desc_def key_totals_def)
  with wf debug_dict_size_profile [OF wf, of 0 "[]"] show ?thesis by simp
qed

section \<open>The schema marker\<close>

text \<open>
  Claim C3 holds that \<^verbatim>\<open>run\<close> aborts on a schema marker of another version. The code
  builds the CuckooReportError and does not raise it: the check never ends in that
  error, and on a store marked with version 2 the save goes through and the document
  is written.
\<close>

theorem schema_mismatch_not_raised:
  "fst (check_schema st) \<noteq> Inl (CuckooReportError msg)
   \<and> run 1 base_env small_results stale_store =
       Some (Return Inserted,
         \<lparr>conn_open = False,
          cuckoo_schema = Some [[(KStr ''version'', VStr ''2'')]],
          analysis =
            [[(KStr ''info'', VDict [(KStr ''id'', VInt 42)]),
              (KStr ''behavior'', VDict [(KStr ''processes'', VList [])]),
              (KStr ''network'', VDict []), (KStr ''_id'', VOid 0)]],
          calls = [], indexes = [''info.id'', ''ALL_SHA256''], next_oid = 1,
          log = [DeletingTask (VInt 42), DeletedTask (VInt 42)]\<rparr>)"
proof
  show "fst (check_schema st) \<noteq> Inl (CuckooReportError msg)"
    by (auto simp: check_schema_def dict_get_def split: option.splits list.splits)
  show "run 1 base_env small_results stale_store =
       Some (Return Inserted,
         \<lparr>conn_open = False,
          cuckoo_schema = Some [[(KStr ''version'', VStr ''2'')]],
          analysis =
            [[(KStr ''info'', VDict [(KStr ''id'', VInt 42)]),
              (KStr ''behavior'', VDict [(KStr ''processes'', VList [])]),
              (KStr ''network'', VDict []), (KStr ''_id'', VOid 0)]],
          calls = [], indexes = [''info.id'', ''ALL_SHA256''], next_oid = 1,
          log = [DeletingTask (VInt 42), DeletedTask (VInt 42)]\<rparr>)"
    by code_simp
qed

section \<open>The connection on the exits of \<^verbatim>\<open>run\<close>\<close>

text \<open>
  Claim C4 holds that the connection is closed on every exit of \<^verbatim>\<open>run\<close>. Three exits
  leave it open: the return after the fallback \<^verbatim>\<open>loop_saver\<close>, the return of the
  remediation loop on a key that is not a string, and an exception (here the KeyError
  of a result tree without a behavior section).
\<close>

theorem connection_left_open:
  "run 1 unencodable_env small_results empty_store =
     Some (Return Fallback,
       \<lparr>conn_open = True,
        cuckoo_schema = Some [[(KStr ''version'', VStr ''1''), (KStr ''_id'', VOid 0)]],
        analysis =
          [[(KStr ''info'', VDict [(KStr ''id'', VInt 42)]), (KStr ''_id'', VOid 2),
            (KStr ''behavior'', VDict [(KStr ''processes'', VList [])]),
            (KStr ''network'', VDict [])]],
        calls = [], indexes = [''info.id'', ''ALL_SHA256''], next_oid = 3,
        log = [DeletingTask (VInt 42), DeletedTask (VInt 42)]\<rparr>)
   \<and> run 1 strict_fixing_env int_key_results empty_store =
     Some (Return KeyBug,
       \<lparr>conn_open = True,
        cuckoo_schema = Some [[(KStr ''version'', VStr ''1''), (KStr ''_id'', VOid 0)]],
        analysis = [], calls = [], indexes = [''info.id'', ''ALL_SHA256''], next_oid = 2,
        log = [DeletingTask (VInt 42), DeletedTask (VInt 42), SearchBug,
               ErrorText ''documents must have only string keys, key was 1'']\<rparr>)
   \<and> run 1 base_env [(KStr ''info'', VDict [(KStr ''id'', VInt 42)])] empty_store =
     Some (Raise (KeyError (KStr ''behavior'')),
       \<lparr>conn_open = True,
        cuckoo_schema = Some [[(KStr ''version'', VStr ''1''), (KStr ''_id'', VOid 0)]],
        analysis = [], calls = [], indexes = [], next_oid = 1, log = []\<rparr>)"
  by code_simp

section \<open>Exceptions inside the remediation loop\<close>

lemma remediate_never_raises:
  "remediate fuel ev parent_key size_filter report st \<noteq> Some (Raise e, report', st')"
proof (induction fuel arbitrary: parent_key size_filter report st)
  case 0
  then show ?case by simp
next
  case (Suc fuel)
  then show ?case
    by (cases "remediation_pass ev parent_key size_filter report st") simp_all
qed

text \<open>
  Claim C10. When the deletion step of a pass raises, while profiling or while deleting,
  the pass logs the exception and ends the loop, \<^verbatim>\<open>run\<close> returns through the place
  after the loop with the connection closed, and no run of the loop, whatever its
  arguments, ends in an exception.
\<close>

theorem deletion_exception_caught:
  assumes "prune size_filter parent_key report = (Some e, report1, lg)"
  shows "remediation_pass ev parent_key size_filter report st
           = Done GaveUp report1 (close_conn (add_log [FailedDelete e] (add_log lg st)))
       \<and> remediate (Suc fuel) ev parent_key size_filter report st
           = Some (Return GaveUp, report1, close_conn (add_log [FailedDelete e] (add_log lg st)))
       \<and> \<not> conn_open (close_conn (add_log [FailedDelete e] (add_log lg st)))
       \<and> remediate fuel' ev parent_key' size_filter' report' st' \<noteq> Some (Raise e', report'', st'')"
  using assms
  by (simp add: remediation_pass_def give_up_def close_conn_def remediate_never_raises)

theorem deletion_exception_caught_witness:
  "prune MONGOSIZELIMIT (KStr ''info'') [(KStr ''info'', VDict [])]
     = (Some IndexError, [(KStr ''info'', VDict [])], [])
   \<and> remediate (Suc 0) base_env (KStr ''info'') MONGOSIZELIMIT [(KStr ''info'', VDict [])] empty_store
     = Some (Return GaveUp, [(KStr ''info'', VDict [])],
          empty_store\<lparr>log := [FailedDelete IndexError]\<rparr>)"
proof -
  have h: "prune MONGOSIZELIMIT (KStr ''info'') [(KStr ''info'', VDict [])]
     = (Some IndexError, [(KStr ''info'', VDict [])], [])"
    by code_simp
  have "close_conn (add_log [FailedDelete IndexError] (add_log [] empty_store))
        = empty_store\<lparr>log := [FailedDelete IndexError]\<rparr>"
    by (simp add: close_conn_def add_log_def empty_store_def)
  with h deletion_exception_caught [OF h, of base_env empty_store 0] show ?thesis
    by simp
qed

section \<open>Properties of the fallback\<close>

lemma map_of_dict_set: "map_of (dict_set d k v) k' = (if k' = k then Some v else map_of d k')"
  by (induction d k v rule: dict_set.induct) auto

lemma doc_id_dict_set: "k \<noteq> KStr ''_id'' \<Longrightarrow> doc_id (dict_set d k v) = doc_id d"
  by (simp add: doc_id_def map_of_dict_set)

lemma update_one_last:
  "Some oid \<notin> set (map doc_id A) \<Longrightarrow> doc_id d = Some oid \<Longrightarrow>
   update_one oid k v (A @ [d]) = A @ [dict_set d k v]"
  by (induction A) auto

lemma update_keys_spec:
  assumes "list_all (\<lambda>k. \<not> update_fails ev report k) keys"
    and "KStr ''_id'' \<notin> set keys"
    and "Some oid \<notin> set (map doc_id A)"
    and "doc_id d = Some oid"
    and "analysis st = A @ [d]"
  shows "update_keys ev oid report keys st =
    (Inr (), st\<lparr>analysis := A @ [set_sections report (filter (\<lambda>k. \<not> update_refused ev report k) keys) d],
                log := log st @ map InvestigateKey (filter (update_refused ev report) keys)\<rparr>)"
  using assms
proof (induction keys arbitrary: d st)
  case Nil
  then show ?case by simp
next
  case (Cons key keys)
  from Cons.prems(1) obtain v where v: "map_of report key = Some v"
    by (auto simp: update_fails_def split: option.splits)
  have key: "key \<noteq> KStr ''_id''" using Cons.prems(2) by auto
  have rest: "list_all (\<lambda>k. \<not> update_fails ev report k) keys" "KStr ''_id'' \<notin> set keys"
    using Cons.prems by auto
  show ?case
  proof (cases "update_reject ev key v")
    case None
    let ?st = "st\<lparr>analysis := update_one oid key v (analysis st)\<rparr>"
    have a: "analysis ?st = A @ [dict_set d key v]"
      using Cons.prems by (simp add: update_one_last)
    have r: "\<not> update_refused ev report key" using v None by (simp add: update_refused_def)
    have "update_keys ev oid report (key # keys) st = update_keys ev oid report keys ?st"
      using v None by (simp add: dict_get_def)
    also have "\<dots> = (Inr (), ?st\<lparr>analysis := A @ [set_sections report (filter (\<lambda>k. \<not> update_refused ev report k) keys) (dict_set d key v)],
                log := log ?st @ map InvestigateKey (filter (update_refused ev report) keys)\<rparr>)"
      using rest Cons.prems(3,4) a key by (intro Cons.IH) (simp_all add: doc_id_dict_set)
    finally show ?thesis using r v by simp
  next
    case (Some e)
    with Cons.prems(1) v obtain msg where e: "e = InvalidDocument msg"
      by (cases e) (auto simp: update_fails_def)
    let ?st = "add_log [InvestigateKey key] st"
    have a: "analysis ?st = A @ [d]" using Cons.prems by (simp add: add_log_def)
    have r: "update_refused ev report key" using v Some e by (simp add: update_refused_def)
    have "update_keys ev oid report (key # keys) st = update_keys ev oid report keys ?st"
      using v Some e by (simp add: dict_get_def)
    also have "\<dots> = (Inr (), ?st\<lparr>analysis := A @ [set_sections report (filter (\<lambda>k. \<not> update_refused ev report k) keys) d],
                log := log ?st @ map InvestigateKey (filter (update_refused ev report) keys)\<rparr>)"
      using rest Cons.prems(3,4) a by (intro Cons.IH) simp_all
    finally show ?thesis using r by (simp add: add_log_def)
  qed
qed

lemma update_keys_not_invalid:
  "fst (update_keys ev oid report keys st) \<noteq> Inl (InvalidDocument msg)"
proof (induction keys arbitrary: st)
  case Nil
  then show ?case by simp
next
  case (Cons key keys)
  show ?case
  proof (cases "map_of report key")
    case None
    then show ?thesis by (simp add: dict_get_def)
  next
    case (Some v)
    then show ?thesis
      using Cons.IH by (cases "update_reject ev key v") (auto simp: dict_get_def split: exn.splits)
  qed
qed

lemma insert_one_accepted:
  assumes "insert_one ev doc st = (Inr oid, doc', st')"
  shows "analysis st' = analysis st @ [doc']" "doc_id doc' = Some oid"
    "Some oid \<notin> set (map doc_id (analysis st))" "log st' = log st" "calls st' = calls st"
    "conn_open st' = conn_open st"
  using assms
  by (auto simp: insert_one_def Let_def split: option.splits if_splits)

lemma sections_no_id: "wf_dict report \<Longrightarrow> KStr ''_id'' \<notin> set (sections report)"
  by (simp add: sections_def wf_dict_def set_remove1_eq distinct_remove1)

text \<open>
  Claim C9. A report without the key \<open>info\<close> makes \<^verbatim>\<open>loop_saver\<close> log an error and return;
  the state changes in its log only, so nothing is inserted or updated; this holds for
  every store. With \<open>info\<close>,
  and the minimal document \<open>doc\<close> (the info section and the new \<open>_id\<close>) accepted by the
  store, each other section of the report but \<open>_id\<close> is sent as an update of its own, in
  order; when no update ends in an exception other than InvalidDocument, \<^verbatim>\<open>loop_saver\<close>
  returns, the stored document has the sections whose update was accepted, and the log
  has one record for each section whose update was refused. No rejection of an update
  as invalid document ever leaves the loop over the sections.
\<close>

theorem loop_saver_spec:
  assumes "wf_dict report"
    and "map_of report (KStr ''info'') = Some info"
    and "insert_one ev [(KStr ''info'', info)] st = (Inr oid, doc, st1)"
    and "list_all (\<lambda>k. \<not> update_fails ev report k) (sections report)"
  shows "loop_saver ev report st =
           (Inr (), st1\<lparr>analysis := analysis st @
                          [set_sections report
                             (filter (\<lambda>k. \<not> update_refused ev report k) (sections report)) doc],
                        log := log st @
                          map InvestigateKey (filter (update_refused ev report) (sections report))\<rparr>)
       \<and> doc = [(KStr ''info'', info), (KStr ''_id'', oid)]
       \<and> (\<not> dict_has other (KStr ''info'') \<longrightarrow>
            loop_saver other_ev other other_st
              = (Inr (), add_log [MissingInfo (map fst other)] other_st))
       \<and> fst (update_keys any_ev oid' report' keys st'') \<noteq> Inl (InvalidDocument msg)"
proof -
  have has: "KStr ''info'' \<in> set (map fst report)"
    using assms(2) by (metis map_of_eq_None_iff option.distinct(1) set_map)
  have acc: "analysis st1 = analysis st @ [doc]" "doc_id doc = Some oid"
    "Some oid \<notin> set (map doc_id (analysis st))" "log st1 = log st"
    using insert_one_accepted [OF assms(3)] by simp_all
  have "update_keys ev oid report (sections report) st1 =
    (Inr (), st1\<lparr>analysis := analysis st @
                   [set_sections report
                      (filter (\<lambda>k. \<not> update_refused ev report k) (sections report)) doc],
                 log := log st1 @
                   map InvestigateKey (filter (update_refused ev report) (sections report))\<rparr>)"
    using assms(4) sections_no_id [OF assms(1)] acc(3,2,1) by (rule update_keys_spec)
  then have 1: "loop_saver ev report st =
           (Inr (), st1\<lparr>analysis := analysis st @
                          [set_sections report
                             (filter (\<lambda>k. \<not> update_refused ev report k) (sections report)) doc],
                        log := log st @
                          map InvestigateKey (filter (update_refused ev report) (sections report))\<rparr>)"
    using has assms(2,3) acc(4) by (simp add: loop_saver_def Let_def dict_get_def sections_def)
  have 2: "doc = [(KStr ''info'', info), (KStr ''_id'', oid)]"
    using assms(3)
    by (auto simp: insert_one_def Let_def dict_has_def doc_id_def split: option.splits if_splits)
  have 3: "\<not> dict_has other (KStr ''info'') \<longrightarrow>
            loop_saver other_ev other other_st
              = (Inr (), add_log [MissingInfo (map fst other)] other_st)"
    by (simp add: loop_saver_def Let_def dict_has_def)
  show ?thesis using 1 2 3 update_keys_not_invalid by simp
qed

theorem loop_saver_spec_witness:
  "wf_dict [(KStr ''info'', VDict [(KStr ''id'', VInt 42)]), (KStr ''behavior'', VDict []),
            (KStr ''network'', VDict []), (KStr ''_id'', VOid 7)]
   \<and> loop_saver no_behavior_env
        [(KStr ''info'', VDict [(KStr ''id'', VInt 42)]), (KStr ''behavior'', VDict []),
         (KStr ''network'', VDict []), (KStr ''_id'', VOid 7)] empty_store
     = (Inr (), empty_store\<lparr>analysis :=
                    [[(KStr ''info'', VDict [(KStr ''id'', VInt 42)]), (KStr ''_id'', VOid 0),
                      (KStr ''network'', VDict [])]],
                  next_oid := 1,
                  log := [InvestigateKey (KStr ''behavior'')]\<rparr>)
   \<and> \<not> dict_has [(KStr ''behavior'', VDict [])] (KStr ''info'')
   \<and> loop_saver no_behavior_env [(KStr ''behavior'', VDict [])] empty_store
     = (Inr (), empty_store\<lparr>log := [MissingInfo [KStr ''behavior'']]\<rparr>)"
proof -
  let ?r = "[(KStr ''info'', VDict [(KStr ''id'', VInt 42)]), (KStr ''behavior'', VDict []),
            (KStr ''network'', VDict []), (KStr ''_id'', VOid 7)]"
  let ?doc = "[(KStr ''info'', VDict [(KStr ''id'', VInt 42)]), (KStr ''_id'', VOid 0)]"
  let ?st1 = "empty_store\<lparr>analysis := [?doc], next_oid := 1\<rparr>"
  have h1: "wf_dict ?r" by (simp add: wf_dict_def)
  have h2: "map_of ?r (KStr ''info'') = Some (VDict [(KStr ''id'', VInt 42)])" by simp
  have h3: "insert_one no_behavior_env [(KStr ''info'', VDict [(KStr ''id'', VInt 42)])] empty_store
            = (Inr (VOid 0), ?doc, ?st1)"
    by code_simp
  have h4: "list_all (\<lambda>k. \<not> update_fails no_behavior_env ?r k) (sections ?r)"
    by code_simp
  have h5: "\<not> dict_has [(KStr ''behavior'', VDict [])] (KStr ''info'')"
    by (simp add: dict_has_def)
  have e1: "?st1\<lparr>analysis := analysis empty_store @
                          [set_sections ?r
                             (filter (\<lambda>k. \<not> update_refused no_behavior_env ?r k) (sections ?r)) ?doc],
                        log := log empty_store @
                          map InvestigateKey (filter (update_refused no_behavior_env ?r) (sections ?r))\<rparr>
       = empty_store\<lparr>analysis :=
                    [[(KStr ''info'', VDict [(KStr ''id'', VInt 42)]), (KStr ''_id'', VOid 0),
                      (KStr ''network'', VDict [])]],
                  next_oid := 1,
                  log := [InvestigateKey (KStr ''behavior'')]\<rparr>"
    by code_simp
  have e2: "add_log [MissingInfo (map fst [(KStr ''behavior'', VDict [])])] empty_store
       = empty_store\<lparr>log := [MissingInfo [KStr ''behavior'']]\<rparr>"
    by code_simp
  from loop_saver_spec [OF h1 h2 h3 h4, where other = "[(KStr ''behavior'', VDict [])]"
      and other_ev = no_behavior_env and other_st = empty_store]
  show ?thesis using h1 h5 e1 e2 by simp
qed

section \<open>Facts about the stages of \<^verbatim>\<open>run\<close>\<close>

subsection \<open>The profiler on a dictionary that is not empty\<close>

lemma length_totals_add: "length (totals_add ts root n) = length ts"
  by (induction ts root n rule: totals_add.induct) auto

lemma length_walk_top: "length (walk_top d ts) = length ts"
  by (induction d arbitrary: ts) (simp_all add: walk_add length_totals_add)

lemma length_sorted_desc: "length (sorted_desc ts) = length ts"
  by (simp add: sorted_desc_def)

lemma largest_dict:
  assumes "d \<noteq> []"
  shows "\<exists>pk ps. largest (VDict d) = Inr (pk, ps)"
proof -
  let ?ts = "sorted_desc (walk_top d (map (\<lambda>kv. (fst kv, 0)) d))"
  have "length ?ts = length d" by (simp add: length_sorted_desc length_walk_top)
  with assms obtain item rest where "?ts = item # rest" by (cases ?ts) auto
  then have "largest (VDict d) = Inr item" by (simp add: largest_def)
  then show ?thesis by (cases item) auto
qed

lemma dict_set_not_Nil: "dict_set d k v \<noteq> []"
  by (cases d) (auto split: if_splits)

subsection \<open>A refused insert\<close>

lemma insert_one_refused:
  assumes "insert_one ev doc st = (Inl e, doc', st')"
  shows "analysis st' = analysis st" "calls st' = calls st" "log st' = log st"
    "conn_open st' = conn_open st" "cuckoo_schema st' = cuckoo_schema st"
    "doc' = (if dict_has doc (KStr ''_id'') then doc else dict_set doc (KStr ''_id'') (VOid (next_oid st)))"
  using assms
  by (auto simp: insert_one_def Let_def split: option.splits if_splits)

lemma insert_one_indexes:
  assumes "insert_one ev doc st = (r, doc', st')"
  shows "indexes st' = indexes st"
  using assms
  by (auto simp: insert_one_def Let_def split: option.splits if_splits)

lemma insert_one_doc:
  assumes "insert_one ev doc st = (r, doc', st')"
  shows "doc' = (if dict_has doc (KStr ''_id'') then doc else dict_set doc (KStr ''_id'') (VOid (next_oid st)))"
  using assms
  by (auto simp: insert_one_def Let_def split: option.splits if_splits)

lemma save_report_diagnosed:
  assumes rej: "insert_one ev (ensure_valid_utf8_items (fix_text ev) report) st
                  = (Inl (InvalidDocument msg), doc, st')"
    and msg: "\<not> prefix ''cannot encode object'' msg" "\<not> suffix must_not_contain_dot msg"
    and off: "\<not> fix_large_docs ev"
  shows "\<exists>pk ps. largest (VDict doc) = Inr (pk, ps) \<and>
           save_report fuel ev report st =
             Some (Return Diagnosed, doc,
                   close_conn (add_log [LargestParent pk (int ps div MEGABYTE)] st'))"
proof -
  have "doc \<noteq> []"
    using insert_one_doc [OF rej] by (auto simp: dict_set_not_Nil dict_has_def)
  then obtain pk ps where l: "largest (VDict doc) = Inr (pk, ps)"
    using largest_dict by blast
  have "save_report fuel ev report st =
             Some (Return Diagnosed, doc,
                   close_conn (add_log [LargestParent pk (int ps div MEGABYTE)] st'))"
    using rej msg off l by (simp add: save_report_def on_invalid_document_def)
  with l show ?thesis by blast
qed

subsection \<open>The eviction\<close>

lemma delete_calls_frame:
  "delete_calls procs st = (r, st') \<Longrightarrow>
   analysis st' = analysis st \<and> log st' = log st \<and> conn_open st' = conn_open st"
proof (induction procs arbitrary: st)
  case Nil
  then show ?case by simp
next
  case (Cons p procs)
  then show ?case
    by (auto split: sum.splits val.splits)
qed

lemma evict_one_analysis:
  assumes "evict_one doc st = (Inr (), st')"
  shows "\<exists>i. doc_id doc = Some i \<and> analysis st' = delete_one i (analysis st)"
    and "log st' = log st" and "conn_open st' = conn_open st"
  using assms
  by (auto simp: evict_one_def dict_get_def doc_id_def split: sum.splits option.splits prod.splits
      dest!: delete_calls_frame)

lemma delete_one_filter:
  "distinct (map doc_id A) \<Longrightarrow> delete_one i A = filter (\<lambda>d. doc_id d \<noteq> Some i) A"
proof (induction A)
  case Nil
  then show ?case by simp
next
  case (Cons d A)
  show ?case
  proof (cases "doc_id d = Some i")
    case True
    then have "\<forall>x\<in>set A. doc_id x \<noteq> Some i" using Cons.prems by force
    then have "filter (\<lambda>d. doc_id d \<noteq> Some i) A = A" by (simp add: filter_id_conv)
    with True show ?thesis by simp
  next
    case False
    then show ?thesis using Cons by simp
  qed
qed

lemma distinct_filter_ids: "distinct (map doc_id A) \<Longrightarrow> distinct (map doc_id (filter P A))"
  by (simp add: distinct_map_filter)

lemma evict_all_analysis:
  assumes "evict_all docs st = (Inr (), st')" and "distinct (map doc_id (analysis st))"
  shows "analysis st' = filter (\<lambda>d. doc_id d \<notin> doc_id ` set docs) (analysis st)
       \<and> list_all (\<lambda>d. doc_id d \<noteq> None) docs
       \<and> log st' = log st \<and> conn_open st' = conn_open st"
  using assms
proof (induction docs arbitrary: st)
  case Nil
  then show ?case by simp
next
  case (Cons doc docs)
  from Cons.prems(1) obtain st1 where 1: "evict_one doc st = (Inr (), st1)"
    and 2: "evict_all docs st1 = (Inr (), st')"
    by (auto split: prod.splits sum.splits)
  from evict_one_analysis [OF 1] obtain i where i: "doc_id doc = Some i"
    and a: "analysis st1 = delete_one i (analysis st)"
    and l: "log st1 = log st" "conn_open st1 = conn_open st" by auto
  have a': "analysis st1 = filter (\<lambda>d. doc_id d \<noteq> Some i) (analysis st)"
    using a Cons.prems(2) by (simp add: delete_one_filter)
  then have d: "distinct (map doc_id (analysis st1))"
    using Cons.prems(2) by (simp add: distinct_filter_ids)
  from Cons.IH [OF 2 d] a' i l show ?case
    by (auto intro!: filter_cong)
qed

lemma evict_analysis:
  assumes ev: "evict ev report st = (Inr (), st')"
    and dist: "distinct (map doc_id (analysis st))"
    and tid: "task_id ev report = Inr t"
  shows "analysis st' = filter (\<lambda>d. info_id d \<noteq> Some (VInt t)) (analysis st)"
    and "find_info_id t (analysis st') = []"
    and "conn_open st' = conn_open st"
proof -
  from ev tid obtain raw st1 where raw: "report_id report = Inr raw"
    and ea: "evict_all (find_info_id t (analysis st)) (add_log [DeletingTask raw] st) = (Inr (), st1)"
    and st': "st' = add_log [DeletedTask raw] st1"
    by (auto simp: evict_def split: sum.splits prod.splits)
  have dist': "distinct (map doc_id (analysis (add_log [DeletingTask raw] st)))"
    using dist by (simp add: add_log_def)
  from evict_all_analysis [OF ea dist']
  have a: "analysis st1 = filter (\<lambda>d. doc_id d \<notin> doc_id ` set (find_info_id t (analysis st))) (analysis st)"
    and c: "conn_open st1 = conn_open st"
    by (simp_all add: add_log_def)
  have inj: "inj_on doc_id (set (analysis st))" using dist by (simp add: distinct_map)
  have "\<And>d. d \<in> set (analysis st) \<Longrightarrow>
     (doc_id d \<notin> doc_id ` set (find_info_id t (analysis st))) = (info_id d \<noteq> Some (VInt t))"
    using inj by (auto simp: find_info_id_def inj_on_def)
  then have "filter (\<lambda>d. doc_id d \<notin> doc_id ` set (find_info_id t (analysis st))) (analysis st)
      = filter (\<lambda>d. info_id d \<noteq> Some (VInt t)) (analysis st)"
    by (intro filter_cong refl) blast
  then have "analysis st1 = filter (\<lambda>d. info_id d \<noteq> Some (VInt t)) (analysis st)"
    using a by simp
  then show "analysis st' = filter (\<lambda>d. info_id d \<noteq> Some (VInt t)) (analysis st)"
    using st' by (simp add: add_log_def)
  then show "find_info_id t (analysis st') = []"
    by (simp add: find_info_id_def)
  show "conn_open st' = conn_open st" using st' c by (simp add: add_log_def)
qed

subsection \<open>What the preparation leaves alone\<close>

lemma check_schema_frame:
  "check_schema st = (r, st') \<Longrightarrow> analysis st' = analysis st \<and> conn_open st' = conn_open st"
  by (auto simp: check_schema_def split: option.splits list.splits sum.splits if_splits)

lemma prepare_frame:
  assumes "prepare ev results st = (r, st')"
  shows "analysis st' = analysis st"
  using assms
  by (auto simp: prepare_def connect_def create_index_def Let_def
      split: if_splits prod.splits sum.splits connect_outcome.splits
      dest!: check_schema_frame)

lemma prepare_connected:
  assumes "prepare ev results st = (Inr report, st')"
  shows "conn_open st'"
  using assms
  by (auto simp: prepare_def connect_def create_index_def Let_def
      split: if_splits prod.splits sum.splits connect_outcome.splits
      dest!: check_schema_frame)

section \<open>An oversize document without remediation\<close>

lemma dict_set_absent: "\<not> dict_has d k \<Longrightarrow> dict_set d k v = d @ [(k, v)]"
  by (induction d k v rule: dict_set.induct) (auto simp: dict_has_def)

lemma keys_ensure_valid_utf8_items: "map fst (ensure_valid_utf8_items f d) = map fst d"
  by (induction d) simp_all

lemma wf_dict_with_id:
  assumes "wf_dict r"
  shows "wf_dict (if dict_has r k then r else dict_set r k v)"
  using assms by (auto simp: dict_set_absent wf_dict_def dict_has_def)

lemma set_sorted_desc: "set (sorted_desc ts) = set ts"
  by (simp add: sorted_desc_def)

text \<open>
  What \<^verbatim>\<open>debug_dict_size(d)[0]\<close> is on a dictionary: a key with its string total, no
  key has a larger total, and among the keys of that total it is the first of the
  dictionary.
\<close>

lemma largest_max:
  assumes wf: "wf_dict d" and l: "largest (VDict d) = Inr (pk, ps)"
  shows "(pk, ps) \<in> set (key_totals d)"
    and "list_all (\<lambda>item. snd item \<le> ps) (key_totals d)"
    and "hd (filter (\<lambda>item. snd item = ps) (key_totals d)) = (pk, ps)"
proof -
  have "debug_dict_size (VDict d) = profile (VDict d)" by simp
  then have "debug_dict_size (VDict d) = Inr (sorted_desc (key_totals d))"
    by (simp only: profile_dict [OF wf])
  with l obtain rest where s: "sorted_desc (key_totals d) = (pk, ps) # rest"
    by (auto simp: largest_def split: list.splits)
  have set: "set (key_totals d) = set ((pk, ps) # rest)"
    using set_sorted_desc [of "key_totals d"] s by simp
  then show "(pk, ps) \<in> set (key_totals d)" by simp
  have "sorted_wrt (\<ge>) (map snd ((pk, ps) # rest))"
    using sorted_desc_sorted [of "key_totals d"] s by simp
  then have "\<forall>item\<in>set rest. snd item \<le> ps" by auto
  with set show "list_all (\<lambda>item. snd item \<le> ps) (key_totals d)"
    by (auto simp: list_all_iff)
  have "filter (\<lambda>item. snd item = ps) (key_totals d)
        = filter (\<lambda>item. snd item = ps) ((pk, ps) # rest)"
    using sorted_desc_stable [of ps "key_totals d"] s by simp
  then show "hd (filter (\<lambda>item. snd item = ps) (key_totals d)) = (pk, ps)" by simp
qed

text \<open>
  Claim C6 holds that, with \<^verbatim>\<open>fix_large_docs\<close> off, a save whose insert is refused for
  size performs no partial write. The save has written before it comes to the insert:
  with a collaborator \<^verbatim>\<open>insert_calls\<close> that stores one call record, a save into the
  empty store ends with that call record, the schema marker and the indexes in the store
  and no document; and a save into the used store ends with the new call record 10 in the
  store, and with the previous document of task 42 and its call record 3 deleted.
\<close>

theorem oversize_leaves_writes:
  "run 1 storing_env small_results empty_store =
     Some (Return Diagnosed,
       \<lparr>conn_open = False,
        cuckoo_schema = Some [[(KStr ''version'', VStr ''1''), (KStr ''_id'', VOid 0)]],
        analysis = [], calls = [[(KStr ''_id'', VOid 1)]],
        indexes = [''info.id'', ''ALL_SHA256''], next_oid = 3,
        log = [DeletingTask (VInt 42), DeletedTask (VInt 42),
               LargestParent (KStr ''info'') 0]\<rparr>)
   \<and> run 1 storing_env small_results used_store =
     Some (Return Diagnosed,
       \<lparr>conn_open = False,
        cuckoo_schema = Some [[(KStr ''version'', VStr ''1''), (KStr ''_id'', VOid 0)]],
        analysis =
          [[(KStr ''info'', VDict [(KStr ''id'', VInt 7)]),
            (KStr ''behavior'',
             VDict [(KStr ''processes'', VList [VDict [(KStr ''calls'', VList [VOid 4])]])]),
            (KStr ''_id'', VOid 6)]],
        calls = [[(KStr ''_id'', VOid 4)], [(KStr ''_id'', VOid 10)]],
        indexes = [''info.id'', ''ALL_SHA256''], next_oid = 12,
        log = [DeletingTask (VInt 42), DeletedTask (VInt 42),
               LargestParent (KStr ''info'') 0]\<rparr>)"
  by code_simp

text \<open>
  Claim C6 as amended. Let the first insert be refused with an InvalidDocument whose text
  is none of the two that lead to the fallback (the size rejection is such a text), with
  \<^verbatim>\<open>fix_large_docs\<close> off. Then \<^verbatim>\<open>run\<close> returns from the diagnosis, and from the refused
  insert on it writes nothing: the collections, the schema marker and the indexes are as
  the eviction left them. The report it leaves is the repaired report with nothing
  deleted (at most the \<open>_id\<close> that the driver added). The log gains just the record of the
  largest top-level key: a key of the report with its string total, in megabytes, that
  no key exceeds, the first such key of the report. The connection is closed. The
  analysis collection is the one of the start without the documents of the task, so it
  holds no document of the task. What the save wrote before the insert (the call
  records of \<^verbatim>\<open>insert_calls\<close>, the schema marker, the indexes) and what the eviction
  deleted is not undone.
\<close>

theorem oversize_only_diagnosed:
  assumes prep: "prepare ev results st = (Inr report, st1)"
    and evi: "evict ev report st1 = (Inr (), st2)"
    and tid: "task_id ev report = Inr t"
    and wf: "wf_dict report"
    and dist: "distinct (map doc_id (analysis st))"
    and rej: "insert_one ev (ensure_valid_utf8_items (fix_text ev) report) st2
                = (Inl (InvalidDocument msg), doc, st3)"
    and msg: "\<not> prefix ''cannot encode object'' msg" "\<not> suffix must_not_contain_dot msg"
    and off: "\<not> fix_large_docs ev"
  shows "\<exists>pk ps st'.
           largest (VDict doc) = Inr (pk, ps)
         \<and> (pk, ps) \<in> set (key_totals doc)
         \<and> list_all (\<lambda>item. snd item \<le> ps) (key_totals doc)
         \<and> hd (filter (\<lambda>item. snd item = ps) (key_totals doc)) = (pk, ps)
         \<and> save_report fuel ev report st2 = Some (Return Diagnosed, doc, st')
         \<and> run fuel ev results st = Some (Return Diagnosed, st')
         \<and> doc = (if dict_has (ensure_valid_utf8_items (fix_text ev) report) (KStr ''_id'')
                   then ensure_valid_utf8_items (fix_text ev) report
                   else dict_set (ensure_valid_utf8_items (fix_text ev) report) (KStr ''_id'')
                          (VOid (next_oid st2)))
         \<and> analysis st' = analysis st2
         \<and> analysis st' = filter (\<lambda>d. info_id d \<noteq> Some (VInt t)) (analysis st)
         \<and> calls st' = calls st2
         \<and> cuckoo_schema st' = cuckoo_schema st2
         \<and> indexes st' = indexes st2
         \<and> log st' = log st2 @ [LargestParent pk (int ps div MEGABYTE)]
         \<and> \<not> conn_open st'
         \<and> find_info_id t (analysis st') = []"
proof -
  from save_report_diagnosed [OF rej msg off, of fuel] obtain pk ps where
    l: "largest (VDict doc) = Inr (pk, ps)" and
    s: "save_report fuel ev report st2 =
          Some (Return Diagnosed, doc,
                close_conn (add_log [LargestParent pk (int ps div MEGABYTE)] st3))"
    by blast
  define st' where "st' = close_conn (add_log [LargestParent pk (int ps div MEGABYTE)] st3)"
  have s': "save_report fuel ev report st2 = Some (Return Diagnosed, doc, st')"
    using s by (simp add: st'_def)
  have r: "run fuel ev results st = Some (Return Diagnosed, st')"
    using prep evi s' by (simp add: run_def)
  have d1: "distinct (map doc_id (analysis st1))"
    using prepare_frame [OF prep] dist by simp
  have none: "find_info_id t (analysis st2) = []"
    using evi d1 tid by (rule evict_analysis(2))
  have rest: "analysis st2 = filter (\<lambda>d. info_id d \<noteq> Some (VInt t)) (analysis st)"
    using evict_analysis(1) [OF evi d1 tid] prepare_frame [OF prep] by simp
  note f = insert_one_refused [OF rej]
  have doc: "doc = (if dict_has (ensure_valid_utf8_items (fix_text ev) report) (KStr ''_id'')
                   then ensure_valid_utf8_items (fix_text ev) report
                   else dict_set (ensure_valid_utf8_items (fix_text ev) report) (KStr ''_id'')
                          (VOid (next_oid st2)))"
    by (rule f(6))
  have "wf_dict (ensure_valid_utf8_items (fix_text ev) report)"
    using wf by (simp add: wf_dict_def keys_ensure_valid_utf8_items)
  then have wfd: "wf_dict doc"
    unfolding doc by (rule wf_dict_with_id)
  note m = largest_max [OF wfd l]
  have a: "analysis st' = analysis st2" "calls st' = calls st2"
    "cuckoo_schema st' = cuckoo_schema st2" "indexes st' = indexes st2"
    "log st' = log st2 @ [LargestParent pk (int ps div MEGABYTE)]" "\<not> conn_open st'"
    using f(1-3,5) insert_one_indexes [OF rej]
    by (simp_all add: st'_def close_conn_def add_log_def)
  have "largest (VDict doc) = Inr (pk, ps)
         \<and> (pk, ps) \<in> set (key_totals doc)
         \<and> list_all (\<lambda>item. snd item \<le> ps) (key_totals doc)
         \<and> hd (filter (\<lambda>item. snd item = ps) (key_totals doc)) = (pk, ps)
         \<and> save_report fuel ev report st2 = Some (Return Diagnosed, doc, st')
         \<and> run fuel ev results st = Some (Return Diagnosed, st')
         \<and> doc = (if dict_has (ensure_valid_utf8_items (fix_text ev) report) (KStr ''_id'')
                   then ensure_valid_utf8_items (fix_text ev) report
                   else dict_set (ensure_valid_utf8_items (fix_text ev) report) (KStr ''_id'')
                          (VOid (next_oid st2)))
         \<and> analysis st' = analysis st2
         \<and> analysis st' = filter (\<lambda>d. info_id d \<noteq> Some (VInt t)) (analysis st)
         \<and> calls st' = calls st2
         \<and> cuckoo_schema st' = cuckoo_schema st2
         \<and> indexes st' = indexes st2
         \<and> log st' = log st2 @ [LargestParent pk (int ps div MEGABYTE)]
         \<and> \<not> conn_open st'
         \<and> find_info_id t (analysis st') = []"
    using l m s' r doc a rest none by (simp only: simp_thms)
  then show ?thesis by (intro exI)
qed

theorem oversize_only_diagnosed_witness:
  "prepare too_large_env small_results used_store =
     (Inr [(KStr ''info'', VDict [(KStr ''id'', VInt 42)]),
           (KStr ''behavior'', VDict [(KStr ''processes'', VList [])]),
           (KStr ''network'', VDict [])],
      used_store\<lparr>conn_open := True\<rparr>)
   \<and> \<not> fix_large_docs too_large_env
   \<and> distinct (map doc_id (analysis used_store))
   \<and> (\<exists>st'. run 1 too_large_env small_results used_store = Some (Return Diagnosed, st')
          \<and> log st' = [DeletingTask (VInt 42), DeletedTask (VInt 42),
                        LargestParent (KStr ''info'') 0]
          \<and> \<not> conn_open st'
          \<and> find_info_id 42 (analysis st') = [])"
proof -
  let ?report = "[(KStr ''info'', VDict [(KStr ''id'', VInt 42)]),
           (KStr ''behavior'', VDict [(KStr ''processes'', VList [])]),
           (KStr ''network'', VDict [])]"
  let ?rest = "[[(KStr ''info'', VDict [(KStr ''id'', VInt 7)]),
         (KStr ''behavior'',
          VDict [(KStr ''processes'', VList [VDict [(KStr ''calls'', VList [VOid 4])]])]),
         (KStr ''_id'', VOid 6)]]"
  let ?st1 = "used_store\<lparr>conn_open := True\<rparr>"
  let ?st2 = "used_store\<lparr>conn_open := True, analysis := ?rest,
                calls := [[(KStr ''_id'', VOid 4)]],
                log := [DeletingTask (VInt 42), DeletedTask (VInt 42)]\<rparr>"
  let ?doc = "?report @ [(KStr ''_id'', VOid 10)]"
  have h1: "prepare too_large_env small_results used_store = (Inr ?report, ?st1)"
    by code_simp
  have h2: "evict too_large_env ?report ?st1 = (Inr (), ?st2)"
    by code_simp
  have h3: "task_id too_large_env ?report = Inr 42"
    by code_simp
  have hw: "wf_dict ?report"
    by (simp add: wf_dict_def)
  have h4: "distinct (map doc_id (analysis used_store))"
    by code_simp
  have h5: "insert_one too_large_env (ensure_valid_utf8_items (fix_text too_large_env) ?report) ?st2
             = (Inl (InvalidDocument ''BSON document too large''), ?doc, ?st2\<lparr>next_oid := 11\<rparr>)"
    by code_simp
  have h6: "\<not> prefix ''cannot encode object'' ''BSON document too large''"
    by simp
  have h7: "\<not> suffix must_not_contain_dot ''BSON document too large''"
    by code_simp
  have h8: "\<not> fix_large_docs too_large_env"
    by code_simp
  have l: "largest (VDict ?doc) = Inr (KStr ''info'', 0)"
    by code_simp
  have lg: "log ?st2 = [DeletingTask (VInt 42), DeletedTask (VInt 42)]"
    by (simp add: used_store_def)
  from oversize_only_diagnosed [OF h1 h2 h3 hw h4 h5 h6 h7 h8, of 1]
  obtain pk ps st' where
    o1: "largest (VDict ?doc) = Inr (pk, ps)"
    and o2: "run 1 too_large_env small_results used_store = Some (Return Diagnosed, st')"
    and o3: "log st' = log ?st2 @ [LargestParent pk (int ps div MEGABYTE)]"
    and o4: "\<not> conn_open st'"
    and o5: "find_info_id 42 (analysis st') = []"
    by blast
  from o1 l have "pk = KStr ''info''" "ps = 0" by simp_all
  with o3 lg have "log st' = [DeletingTask (VInt 42), DeletedTask (VInt 42),
                        LargestParent (KStr ''info'') 0]"
    by simp
  with o2 o4 o5 have "\<exists>st'. run 1 too_large_env small_results used_store = Some (Return Diagnosed, st')
          \<and> log st' = [DeletingTask (VInt 42), DeletedTask (VInt 42),
                        LargestParent (KStr ''info'') 0]
          \<and> \<not> conn_open st'
          \<and> find_info_id 42 (analysis st') = []"
    by blast
  with h1 h4 h8 show ?thesis by blast
qed

section \<open>The key coercion\<close>

text \<open>
  Claim C8 holds that one application of \<^verbatim>\<open>fix_int2str\<close> leaves only string keys and
  that a second application changes nothing. On an interpreter whose dictionaries have
  no \<^verbatim>\<open>iteritems\<close> every call raises AttributeError. Where the method exists, a
  dictionary in a list inside a list is not visited, so its integer key stays; and under
  a key that is renamed the value is not visited in the same call, so the first
  application leaves the inner integer key and the second one renames it.
\<close>

theorem fix_int2str_misses_keys:
  "fix_int2str False d tree = Inl AttributeError
   \<and> fix_int2str True [(KStr ''a'', VList [VList [VDict [(KInt 1, VStr ''x'')]]])] ''''
       = Inr ([(KStr ''a'', VList [VList [VDict [(KInt 1, VStr ''x'')]]])], [])
   \<and> \<not> str_keys (VDict [(KStr ''a'', VList [VList [VDict [(KInt 1, VStr ''x'')]]])])
   \<and> fix_int2str True [(KInt 1, VDict [(KInt 2, VStr ''x'')])] ''''
       = Inr ([(KStr ''1'', VDict [(KInt 2, VStr ''x'')])], [BadKey ''.1''])
   \<and> fix_int2str True [(KStr ''1'', VDict [(KInt 2, VStr ''x'')])] ''''
       = Inr ([(KStr ''1'', VDict [(KStr ''2'', VStr ''x'')])], [BadKey ''.1.2''])"
proof -
  have "fix_int2str False d tree = Inl AttributeError"
    by simp
  moreover have
    "fix_int2str True [(KStr ''a'', VList [VList [VDict [(KInt 1, VStr ''x'')]]])] ''''
       = Inr ([(KStr ''a'', VList [VList [VDict [(KInt 1, VStr ''x'')]]])], [])"
    by (simp add: str_int_def str_nat.simps digit_char_def dict_get_def dict_del_def dot_join_def)
  moreover have
    "\<not> str_keys (VDict [(KStr ''a'', VList [VList [VDict [(KInt 1, VStr ''x'')]]])])"
    by simp
  moreover have "fix_int2str True [(KInt 1, VDict [(KInt 2, VStr ''x'')])] ''''
       = Inr ([(KStr ''1'', VDict [(KInt 2, VStr ''x'')])], [BadKey ''.1''])"
    by (simp add: str_int_def str_nat.simps digit_char_def dict_get_def dict_del_def dot_join_def)
  moreover have "fix_int2str True [(KStr ''1'', VDict [(KInt 2, VStr ''x'')])] ''''
       = Inr ([(KStr ''1'', VDict [(KStr ''2'', VStr ''x'')])], [BadKey ''.1.2''])"
    by (simp add: str_int_def str_nat.simps digit_char_def dict_get_def dict_del_def dot_join_def)
  ultimately show ?thesis by blast
qed

section \<open>A key that is not a string, in \<^verbatim>\<open>run\<close>\<close>







section \<open>The replacement of the previous documents\<close>



lemma delete_many_none: "filter (call_in ids) (delete_many ids cs) = []"
  by (induction cs) (auto simp: delete_many_def call_in_def split: option.splits)

























lemma filter_other_tasks:
  assumes "info_id doc = Some (VInt t)"
  shows "filter (\<lambda>d. info_id d \<noteq> Some (VInt t))
           (filter (\<lambda>d. info_id d \<noteq> Some (VInt t)) A @ [doc])
         = filter (\<lambda>d. info_id d \<noteq> Some (VInt t)) A"
  using assms by simp




end
